theory Spec2Isabelle
  imports Complex_Main "HOL-Library.AList"
begin

section \<open>Classification metric reporter of pytext\<close>

text \<open>
  A shallow embedding of \<^verbatim>\<open>pytext/metric_reporters/classification_metric_reporter.py\<close>.
  Python exceptions are values of \<open>py_error\<close>; a function that may raise returns
  \<open>py_error + 'a\<close> with \<open>Inl\<close> for the exception. Python floats are modelled as reals,
  Python ints as \<open>int\<close>, dictionaries as association lists in insertion order.
\<close>

subsection \<open>Errors and Python list indexing\<close>

datatype py_error =
    AssertionError | IndexError | KeyError | TypeError | ValueError | RuntimeError
  | ConfigurationError

text \<open>\<^verbatim>\<open>xs[i]\<close> for a Python list: a negative index counts from the end, an index out
  of range raises IndexError.\<close>

definition getitem :: "'a list \<Rightarrow> int \<Rightarrow> py_error + 'a" where
  "getitem xs i =
     (if 0 \<le> i \<and> i < int (length xs) then Inr (xs ! nat i)
      else if i < 0 \<and> - int (length xs) \<le> i then Inr (xs ! nat (int (length xs) + i))
      else Inl IndexError)"

text \<open>\<^verbatim>\<open>list(map(xs.__getitem__, idxs))\<close>: the first failing lookup raises.\<close>

fun map_getitem :: "'a list \<Rightarrow> int list \<Rightarrow> py_error + 'a list" where
  "map_getitem xs [] = Inr []"
| "map_getitem xs (i # is) =
     (case getitem xs i of
        Inl e \<Rightarrow> Inl e
      | Inr v \<Rightarrow> (case map_getitem xs is of Inl e \<Rightarrow> Inl e | Inr vs \<Rightarrow> Inr (v # vs)))"

subsection \<open>Configuration and reporter state\<close>

text \<open>The enumeration \<^verbatim>\<open>ComparableClassificationMetric\<close>: its eight members, and the
  value of each member, which is the identifier written in a configuration.\<close>

datatype ComparableClassificationMetric =
    ACCURACY | ROC_AUC | MCC | MACRO_F1 | LABEL_F1 | LABEL_AVG_PRECISION | LABEL_ROC_AUC
  | NEGATIVE_LOSS

fun metric_value :: "ComparableClassificationMetric \<Rightarrow> string" where
  "metric_value ACCURACY = ''accuracy''"
| "metric_value ROC_AUC = ''roc_auc''"
| "metric_value MCC = ''mcc''"
| "metric_value MACRO_F1 = ''macro_f1''"
| "metric_value LABEL_F1 = ''label_f1''"
| "metric_value LABEL_AVG_PRECISION = ''label_avg_precision''"
| "metric_value LABEL_ROC_AUC = ''label_roc_auc''"
| "metric_value NEGATIVE_LOSS = ''negative_loss''"

definition metric_members :: "ComparableClassificationMetric list" where
  "metric_members =
     [ACCURACY, ROC_AUC, MCC, MACRO_F1, LABEL_F1, LABEL_AVG_PRECISION, LABEL_ROC_AUC,
      NEGATIVE_LOSS]"

datatype Stage = TRAIN | EVAL | TEST

datatype Channel = ConsoleChannel | FileChannel "Stage list" string

record Config =
  cfg_output_path :: string
  cfg_model_select_metric :: ComparableClassificationMetric
  cfg_target_label :: "string option"
  cfg_text_column_names :: "string list"
  cfg_additional_column_names :: "string list"
  cfg_recall_at_precision_thresholds :: "real list"
  cfg_is_memory_efficient :: bool

text \<open>A value of the \<^verbatim>\<open>**context\<close> dictionary: a list (or tensor) of per-example values,
  or anything else.\<close>

datatype ctx_val = CtxList "string list" | CtxOther string

text \<open>The model input of a batch: a generator of tensors or a tuple of tensors; a tensor
  is the list of its rows.\<close>

datatype 'a model_input = MGenerator "'a list list" | MTuple "'a list list"

text \<open>The attributes of a \<^verbatim>\<open>ClassificationMetricReporter\<close>: the constructor's arguments and
  the accumulation buffers. The type of one prediction and of one target are parameters:
  label indices for the single-label reporter, lists for the multi-label one.\<close>

record ('p, 't) reporter =
  label_names :: "string list"
  channels :: "Channel list"
  model_select_metric :: ComparableClassificationMetric
  target_label :: "string option"
  text_column_names :: "string list"
  additional_column_names :: "string list"
  recall_at_precision_thresholds :: "real list"
  is_memory_efficient :: bool
  n_batches :: int
  all_preds :: "'p list"
  all_targets :: "'t list"
  all_scores :: "real list list"
  all_context :: "(string \<times> string list) list"
  all_loss :: "real list"
  batch_size :: "nat list"

text \<open>Modelled from the spec: the constructor and \<^verbatim>\<open>_reset\<close> of the base class
  \<^verbatim>\<open>MetricReporter\<close> are not in this file; the spec says that the accumulation state is
  created empty at the start of a pass. \<open>init_reporter\<close> is \<^verbatim>\<open>__init__\<close>: it stores its
  arguments and starts with empty buffers.\<close>

definition init_reporter ::
  "string list \<Rightarrow> Channel list \<Rightarrow> ComparableClassificationMetric \<Rightarrow> string option \<Rightarrow>
   string list \<Rightarrow> string list \<Rightarrow> real list \<Rightarrow> bool \<Rightarrow> ('p, 't) reporter" where
  "init_reporter names chans metric target text_cols add_cols thresholds mem_eff =
     \<lparr> label_names = names, channels = chans, model_select_metric = metric,
       target_label = target, text_column_names = text_cols,
       additional_column_names = add_cols, recall_at_precision_thresholds = thresholds,
       is_memory_efficient = mem_eff, n_batches = 0, all_preds = [], all_targets = [],
       all_scores = [], all_context = [], all_loss = [], batch_size = [] \<rparr>"

text \<open>\<^verbatim>\<open>from_config_and_label_names\<close>: the two groups of assertions, then the constructor.\<close>

definition from_config_and_label_names ::
  "Config \<Rightarrow> string list \<Rightarrow> py_error + ('p, 't) reporter" where
  "from_config_and_label_names config names =
     (if cfg_model_select_metric config \<in> {LABEL_F1, LABEL_AVG_PRECISION, LABEL_ROC_AUC}
         \<and> cfg_target_label config = None
      then Inl AssertionError
      else if cfg_model_select_metric config \<in> {LABEL_F1, LABEL_AVG_PRECISION, LABEL_ROC_AUC}
         \<and> (case cfg_target_label config of None \<Rightarrow> False | Some t \<Rightarrow> t \<notin> set names)
      then Inl AssertionError
      else if cfg_model_select_metric config \<in> {ROC_AUC, MCC} \<and> length names \<noteq> 2
      then Inl AssertionError
      else Inr (init_reporter names
                  [ConsoleChannel, FileChannel [TEST] (cfg_output_path config)]
                  (cfg_model_select_metric config) (cfg_target_label config)
                  (cfg_text_column_names config) (cfg_additional_column_names config)
                  (cfg_recall_at_precision_thresholds config)
                  (cfg_is_memory_efficient config)))"

subsection \<open>Batch aggregation\<close>

text \<open>Modelled from the spec: \<^verbatim>\<open>aggregate_data\<close>, \<^verbatim>\<open>aggregate_preds\<close>, \<^verbatim>\<open>aggregate_targets\<close>
  and \<^verbatim>\<open>aggregate_scores\<close> belong to the base class \<^verbatim>\<open>MetricReporter\<close>, which is not in
  this file; the spec says that a batch is appended verbatim, index-aligned with the running
  accumulation.\<close>

definition aggregate_data :: "'a list \<Rightarrow> 'a list \<Rightarrow> 'a list" where
  "aggregate_data all_data new_batch = all_data @ new_batch"

text \<open>\<^verbatim>\<open>itertools.tee(it, n)\<close> returns a tuple of \<open>n\<close> independent iterators over the items
  of \<open>it\<close>; nothing is taken from \<open>it\<close> by the call.\<close>

definition tee :: "'a list \<Rightarrow> nat \<Rightarrow> 'a list list" where
  "tee it n = replicate n it"

text \<open>The loop over \<^verbatim>\<open>context.items()\<close>: a value that is neither a tensor nor a list is
  skipped, a new key starts with the empty list.\<close>

fun aggregate_context ::
  "(string \<times> string list) list \<Rightarrow> (string \<times> ctx_val) list \<Rightarrow> (string \<times> string list) list" where
  "aggregate_context acc [] = acc"
| "aggregate_context acc ((key, CtxOther v) # rest) = aggregate_context acc rest"
| "aggregate_context acc ((key, CtxList vs) # rest) =
     aggregate_context
       (AList.update key
          (aggregate_data (case map_of acc key of None \<Rightarrow> [] | Some old \<Rightarrow> old) vs) acc)
       rest"

text \<open>\<^verbatim>\<open>ClassificationMetricReporter.add_batch_stats\<close>. The method mutates the reporter, so
  the result is the reporter after the call and the exception that ended the call, if any.\<close>

definition add_batch_stats ::
  "('p, 't, 'z) reporter_scheme \<Rightarrow> int \<Rightarrow> 'p list \<Rightarrow> 't list \<Rightarrow> real list list \<Rightarrow>
   real option \<Rightarrow> 'x model_input \<Rightarrow> (string \<times> ctx_val) list \<Rightarrow>
   ('p, 't, 'z) reporter_scheme \<times> py_error option" where
  "add_batch_stats self n preds targets scores loss_v m_input context =
     (let s1 = self\<lparr>n_batches := n\<rparr>;
          s2 = s1\<lparr>all_preds := aggregate_data (all_preds s1) preds\<rparr>;
          s3 = s2\<lparr>all_targets := aggregate_data (all_targets s2) targets\<rparr>;
          s4 = (if \<not> is_memory_efficient s3
                then s3\<lparr>all_scores := aggregate_data (all_scores s3) scores\<rparr> else s3);
          s5 = s4\<lparr>all_context := aggregate_context (all_context s4) context\<rparr>;
          s6 = (case loss_v of None \<Rightarrow> s5 | Some l \<Rightarrow> s5\<lparr>all_loss := all_loss s5 @ [l]\<rparr>)
      in case m_input of
           MGenerator g \<Rightarrow>
             (let first = tee g 1 in (s6\<lparr>batch_size := batch_size s6 @ [length first]\<rparr>, None))
         | MTuple ts \<Rightarrow>
             (case getitem ts 0 of
                Inl e \<Rightarrow> (s6, Some e)
              | Inr t \<Rightarrow> (s6\<lparr>batch_size := batch_size s6 @ [length t]\<rparr>, None)))"

text \<open>The arguments of one call of \<^verbatim>\<open>add_batch_stats\<close>, and the calls of one pass in order:
  the evaluation loop calls the method once per batch and an exception ends the pass.\<close>

record ('p, 't, 'x) batch_call =
  arg_n_batches :: int
  arg_preds :: "'p list"
  arg_targets :: "'t list"
  arg_scores :: "real list list"
  arg_loss :: "real option"
  arg_m_input :: "'x model_input"
  arg_context :: "(string \<times> ctx_val) list"

fun add_all_batches ::
  "('p, 't, 'z) reporter_scheme \<Rightarrow> ('p, 't, 'x) batch_call list \<Rightarrow>
   ('p, 't, 'z) reporter_scheme \<times> py_error option" where
  "add_all_batches self [] = (self, None)"
| "add_all_batches self (b # bs) =
     (case add_batch_stats self (arg_n_batches b) (arg_preds b) (arg_targets b) (arg_scores b)
             (arg_loss b) (arg_m_input b) (arg_context b) of
        (s, Some e) \<Rightarrow> (s, Some e)
      | (s, None) \<Rightarrow> add_all_batches s bs)"

subsection \<open>Assembling the predictions\<close>

text \<open>\<^verbatim>\<open>zip_longest(xs, ys, zs, fillvalue=[])\<close>: as long as the longest argument, a missing
  element is the fill value. In the position of a label index the fill value \<^verbatim>\<open>[]\<close> is
  not an index: \<open>EmptyList\<close> stands for it there.\<close>

datatype 'a slot = Value 'a | EmptyList

definition nth_or :: "'a list \<Rightarrow> nat \<Rightarrow> 'a \<Rightarrow> 'a" where
  "nth_or xs i d = (if i < length xs then xs ! i else d)"

definition zip_longest3 ::
  "'a list \<Rightarrow> 'b list \<Rightarrow> 'c list \<Rightarrow> 'a \<Rightarrow> 'b \<Rightarrow> 'c \<Rightarrow> ('a \<times> 'b \<times> 'c) list" where
  "zip_longest3 xs ys zs fx fy fz =
     map (\<lambda>i. (nth_or xs i fx, nth_or ys i fy, nth_or zs i fz))
       [0 ..< max (length xs) (max (length ys) (length zs))]"

type_synonym ('p, 't) LabelPrediction = "real list \<times> 'p slot \<times> 't slot"
type_synonym ('p, 't) LabelListPrediction = "real list \<times> 'p \<times> 't"
type_synonym LabelTopKPrediction = "real list \<times> int list \<times> int slot"

text \<open>The list comprehension of \<^verbatim>\<open>ClassificationMetricReporter.calculate_metric\<close>.\<close>

definition label_predictions ::
  "('p, 't, 'z) reporter_scheme \<Rightarrow> ('p, 't) LabelPrediction list" where
  "label_predictions self =
     zip_longest3 (all_scores self) (map Value (all_preds self)) (map Value (all_targets self))
       [] EmptyList EmptyList"

text \<open>\<^verbatim>\<open>ClassificationMetricReporter.calculate_metric\<close>. The function
  \<^verbatim>\<open>compute_classification_metrics\<close> of \<^verbatim>\<open>pytext.metrics\<close> and the result of
  \<^verbatim>\<open>self.calculate_loss()\<close> of the base class are parameters.\<close>

definition calculate_metric ::
  "(('p, 't) LabelPrediction list \<Rightarrow> string list \<Rightarrow> 'l \<Rightarrow> bool \<Rightarrow> real list \<Rightarrow> 'r) \<Rightarrow> 'l \<Rightarrow>
   ('p, 't, 'z) reporter_scheme \<Rightarrow> 'r" where
  "calculate_metric compute_classification_metrics calculated_loss self =
     compute_classification_metrics (label_predictions self) (label_names self) calculated_loss
       (\<not> is_memory_efficient self) (recall_at_precision_thresholds self)"

text \<open>The list comprehension of \<^verbatim>\<open>MultiLabelClassificationMetricReporter.calculate_metric\<close>:
  Python's \<^verbatim>\<open>zip\<close> stops at the shortest argument.\<close>

definition label_list_predictions ::
  "('p, 't, 'z) reporter_scheme \<Rightarrow> ('p, 't) LabelListPrediction list" where
  "label_list_predictions self =
     zip (all_scores self) (zip (all_preds self) (all_targets self))"

text \<open>\<^verbatim>\<open>MultiLabelClassificationMetricReporter.calculate_metric\<close>, with
  \<^verbatim>\<open>compute_multi_label_classification_metrics\<close> and the calculated loss as parameters.\<close>

definition multi_label_calculate_metric ::
  "(('p, 't) LabelListPrediction list \<Rightarrow> string list \<Rightarrow> 'l \<Rightarrow> bool \<Rightarrow> real list \<Rightarrow> 'r) \<Rightarrow> 'l \<Rightarrow>
   ('p, 't, 'z) reporter_scheme \<Rightarrow> 'r" where
  "multi_label_calculate_metric compute_multi_label_classification_metrics calculated_loss self =
     compute_multi_label_classification_metrics (label_list_predictions self) (label_names self)
       calculated_loss (\<not> is_memory_efficient self) (recall_at_precision_thresholds self)"

subsection \<open>Per-label confusions and the metrics report\<close>

datatype outcome = TP | FP | FN | TN

record Confusions =
  tp :: int
  fp :: int
  fn :: int
  tn :: int

definition no_confusions :: Confusions where
  "no_confusions = \<lparr> tp = 0, fp = 0, fn = 0, tn = 0 \<rparr>"

fun add_outcome :: "outcome \<Rightarrow> int \<Rightarrow> Confusions \<Rightarrow> Confusions" where
  "add_outcome TP c m = m\<lparr>tp := tp m + c\<rparr>"
| "add_outcome FP c m = m\<lparr>fp := fp m + c\<rparr>"
| "add_outcome FN c m = m\<lparr>fn := fn m + c\<rparr>"
| "add_outcome TN c m = m\<lparr>tn := tn m + c\<rparr>"

type_synonym PerLabelConfusions = "(string \<times> Confusions) list"

text \<open>The counters of a label; a label that was never touched has none.\<close>

definition confusions_of :: "PerLabelConfusions \<Rightarrow> string \<Rightarrow> Confusions" where
  "confusions_of m label = (case map_of m label of None \<Rightarrow> no_confusions | Some c \<Rightarrow> c)"

text \<open>Modelled from the spec: \<^verbatim>\<open>PerLabelConfusions\<close> is imported from
  \<^verbatim>\<open>pytext.metrics.intent_slot_metrics\<close>, which is not among the sources. The spec:
  \<^verbatim>\<open>update(label_name, outcome, count)\<close> increments the counter of that label and outcome,
  and a label not seen before starts at zero on first touch.\<close>

definition update :: "PerLabelConfusions \<Rightarrow> string \<Rightarrow> outcome \<Rightarrow> int \<Rightarrow> PerLabelConfusions" where
  "update m label item c = AList.update label (add_outcome item c (confusions_of m label)) m"

text \<open>Modelled from the spec: \<^verbatim>\<open>safe_division\<close> is imported from \<^verbatim>\<open>pytext.metrics\<close>, which
  is not among the sources. The spec: a zero denominator gives zero instead of a
  divide-by-zero fault.\<close>

definition safe_division :: "real \<Rightarrow> real \<Rightarrow> real" where
  "safe_division n d = (if d = 0 then 0 else n / d)"

record PRF1Scores =
  precision :: real
  recall :: real
  f1 :: real

record MacroPRF1Metrics =
  per_label_scores :: "(string \<times> PRF1Scores) list"
  macro_scores :: PRF1Scores

definition prf1_of :: "Confusions \<Rightarrow> PRF1Scores" where
  "prf1_of c =
     (let p = safe_division (real_of_int (tp c)) (real_of_int (tp c + fp c));
          r = safe_division (real_of_int (tp c)) (real_of_int (tp c + fn c))
      in \<lparr> precision = p, recall = r, f1 = safe_division (2 * p * r) (p + r) \<rparr>)"

text \<open>Modelled from the spec: \<^verbatim>\<open>PerLabelConfusions.compute_metrics\<close> is not among the
  sources. The spec: precision is TP/(TP+FP) and recall TP/(TP+FN), zero when the
  denominator is zero; F1 is their harmonic mean, zero when both are zero; the macro scores
  are the unweighted means over the labels that occur as expected or predicted.\<close>

definition compute_metrics :: "PerLabelConfusions \<Rightarrow> bool \<Rightarrow> MacroPRF1Metrics" where
  "compute_metrics m log_per_label_metrics =
     (let present = filter (\<lambda>(l, c). tp c + fp c + fn c > 0) m;
          scores = map (\<lambda>(l, c). (l, prf1_of c)) present;
          n = real (length scores)
      in \<lparr> per_label_scores = (if log_per_label_metrics then scores else []),
           macro_scores =
             \<lparr> precision = safe_division (sum_list (map (precision \<circ> snd) scores)) n,
               recall = safe_division (sum_list (map (recall \<circ> snd) scores)) n,
               f1 = safe_division (sum_list (map (f1 \<circ> snd) scores)) n \<rparr> \<rparr>)"

record SoftClassificationMetrics =
  average_precision :: "real option"
  label_roc_auc :: "real option"

record ClassificationMetrics =
  accuracy :: real
  macro_prf1_metrics :: MacroPRF1Metrics
  per_label_soft_scores :: "(string \<times> SoftClassificationMetrics) list option"
  mcc :: "real option"
  roc_auc :: "real option"
  loss :: "real option"

subsection \<open>Top-k metrics\<close>

text \<open>The loop of \<^verbatim>\<open>compute_topk_classification_metrics\<close>, from the state
  \<open>(num_correct, per_label_confusions)\<close>. Looking a label name up raises IndexError for an
  index out of range and TypeError for the fill value \<^verbatim>\<open>[]\<close>; \<^verbatim>\<open>predicted_labels[0]\<close>
  raises IndexError for an empty top-k list.\<close>

fun topk_loop ::
  "string list \<Rightarrow> nat \<times> PerLabelConfusions \<Rightarrow> LabelTopKPrediction list \<Rightarrow>
   py_error + nat \<times> PerLabelConfusions" where
  "topk_loop names (num_correct, confs) [] = Inr (num_correct, confs)"
| "topk_loop names (num_correct, confs) ((_, tk, label) # rest) =
     (case map_getitem names tk of
        Inl e \<Rightarrow> Inl e
      | Inr predicted_labels \<Rightarrow>
          (case label of
             EmptyList \<Rightarrow> Inl TypeError
           | Value l \<Rightarrow>
               (case getitem names l of
                  Inl e \<Rightarrow> Inl e
                | Inr expected_label \<Rightarrow>
                    if expected_label \<in> set predicted_labels
                    then topk_loop names (num_correct + 1, update confs expected_label TP 1) rest
                    else (case getitem predicted_labels 0 of
                            Inl e \<Rightarrow> Inl e
                          | Inr first \<Rightarrow>
                              topk_loop names
                                (num_correct, update (update confs expected_label FN 1) first FP 1)
                                rest))))"

definition compute_topk_classification_metrics ::
  "LabelTopKPrediction list \<Rightarrow> string list \<Rightarrow> real option \<Rightarrow> bool \<Rightarrow>
   py_error + ClassificationMetrics" where
  "compute_topk_classification_metrics predictions names loss_v log_per_label_metrics =
     (case topk_loop names (0, []) predictions of
        Inl e \<Rightarrow> Inl e
      | Inr (num_correct, per_label_confusions) \<Rightarrow>
          Inr \<lparr> accuracy = safe_division (real num_correct) (real (length predictions)),
                macro_prf1_metrics = compute_metrics per_label_confusions log_per_label_metrics,
                per_label_soft_scores = Some [],
                mcc = None,
                roc_auc = None,
                loss = loss_v \<rparr>)"

subsection \<open>The top-k reporter\<close>

record ('p, 't) topk_reporter = "('p, 't) reporter" +
  topk :: int
  all_topk_preds :: "int list list"

text \<open>The score matrix of a batch as a tensor: its number of columns, one per label, and
  its rows, one per example. A tensor without rows still has its number of columns.\<close>

record score_tensor =
  n_cols :: nat
  t_rows :: "real list list"

text \<open>\<^verbatim>\<open>torch.topk(batch_scores, k)\<close> along the last dimension: for every row \<open>k\<close> largest
  values and their indices. A \<open>k\<close> that is negative or larger than the number of columns
  raises RuntimeError. Which of several equal scores the library takes, and in which order,
  is not fixed by the library, so the choice it makes in a row is the parameter \<open>sel\<close>:
  \<open>sel row k\<close> are the positions chosen in \<open>row\<close>.\<close>

definition torch_topk ::
  "(real list \<Rightarrow> nat \<Rightarrow> nat list) \<Rightarrow> score_tensor \<Rightarrow> int \<Rightarrow>
   py_error + real list list \<times> int list list" where
  "torch_topk sel batch_scores k =
     (if k < 0 \<or> int (n_cols batch_scores) < k then Inl RuntimeError
      else Inr (map (\<lambda>row. map (\<lambda>i. row ! i) (sel row (nat k))) (t_rows batch_scores),
                map (\<lambda>row. map int (sel row (nat k))) (t_rows batch_scores)))"

text \<open>\<^verbatim>\<open>TopKClassificationMetricReporter.aggregate_topkpreds\<close>.\<close>

definition aggregate_topkpreds ::
  "(real list \<Rightarrow> nat \<Rightarrow> nat list) \<Rightarrow> ('p, 't, 'z) topk_reporter_scheme \<Rightarrow> score_tensor \<Rightarrow>
   ('p, 't, 'z) topk_reporter_scheme \<times> py_error option" where
  "aggregate_topkpreds sel self batch_scores =
     (case torch_topk sel batch_scores (topk self) of
        Inl e \<Rightarrow> (self, Some e)
      | Inr (values, indices) \<Rightarrow>
          (self\<lparr>all_topk_preds := aggregate_data (all_topk_preds self) indices\<rparr>, None))"

text \<open>\<^verbatim>\<open>TopKClassificationMetricReporter.add_batch_stats\<close>: the method of the base class,
  which takes the rows of the score matrix, then the top-k indices of the batch.\<close>

definition topk_add_batch_stats ::
  "(real list \<Rightarrow> nat \<Rightarrow> nat list) \<Rightarrow> ('p, 't, 'z) topk_reporter_scheme \<Rightarrow> int \<Rightarrow> 'p list \<Rightarrow>
   't list \<Rightarrow> score_tensor \<Rightarrow> real option \<Rightarrow> 'x model_input \<Rightarrow> (string \<times> ctx_val) list \<Rightarrow>
   ('p, 't, 'z) topk_reporter_scheme \<times> py_error option" where
  "topk_add_batch_stats sel self n preds targets scores loss_v m_input context =
     (case add_batch_stats self n preds targets (t_rows scores) loss_v m_input context of
        (s, Some e) \<Rightarrow> (s, Some e)
      | (s, None) \<Rightarrow> aggregate_topkpreds sel s scores)"

text \<open>The calls of one pass of the top-k reporter, in order; a call has the arguments of
  \<^verbatim>\<open>add_batch_stats\<close> and the number of columns of its score matrix.\<close>

record ('p, 't, 'x) topk_batch_call = "('p, 't, 'x) batch_call" +
  arg_n_cols :: nat

fun topk_add_all_batches ::
  "(real list \<Rightarrow> nat \<Rightarrow> nat list) \<Rightarrow> ('p, 't, 'z) topk_reporter_scheme \<Rightarrow>
   ('p, 't, 'x) topk_batch_call list \<Rightarrow> ('p, 't, 'z) topk_reporter_scheme \<times> py_error option" where
  "topk_add_all_batches sel self [] = (self, None)"
| "topk_add_all_batches sel self (b # bs) =
     (case topk_add_batch_stats sel self (arg_n_batches b) (arg_preds b) (arg_targets b)
             \<lparr> n_cols = arg_n_cols b, t_rows = arg_scores b \<rparr>
             (arg_loss b) (arg_m_input b) (arg_context b) of
        (s, Some e) \<Rightarrow> (s, Some e)
      | (s, None) \<Rightarrow> topk_add_all_batches sel s bs)"

text \<open>\<^verbatim>\<open>TopKClassificationMetricReporter.calculate_metric\<close>; the result of
  \<^verbatim>\<open>self.calculate_loss()\<close> of the base class is a parameter. The default of
  \<^verbatim>\<open>log_per_label_metrics\<close> is true.\<close>

definition topk_label_predictions ::
  "('p, int, 'z) topk_reporter_scheme \<Rightarrow> LabelTopKPrediction list" where
  "topk_label_predictions self =
     zip_longest3 (all_scores self) (all_topk_preds self) (map Value (all_targets self))
       [] [] EmptyList"

definition topk_calculate_metric ::
  "real option \<Rightarrow> ('p, int, 'z) topk_reporter_scheme \<Rightarrow> py_error + ClassificationMetrics" where
  "topk_calculate_metric calculated_loss self =
     compute_topk_classification_metrics (topk_label_predictions self) (label_names self)
       calculated_loss True"

subsection \<open>Model selection\<close>

text \<open>\<^verbatim>\<open>d[key]\<close> for a dictionary: a missing key raises KeyError. The key may be
  \<^verbatim>\<open>None\<close>, which no dictionary of label names has.\<close>

definition dict_getitem :: "(string \<times> 'v) list \<Rightarrow> string option \<Rightarrow> py_error + 'v" where
  "dict_getitem d key =
     (case key of
        None \<Rightarrow> Inl KeyError
      | Some k \<Rightarrow> (case map_of d k of None \<Rightarrow> Inl KeyError | Some v \<Rightarrow> Inr v))"

text \<open>The chain of \<^verbatim>\<open>if\<close>/\<^verbatim>\<open>elif\<close> of \<^verbatim>\<open>get_model_select_metric\<close>: the value bound to
  \<^verbatim>\<open>metric\<close>, which may be \<^verbatim>\<open>None\<close>. Subscripting \<^verbatim>\<open>None\<close> and negating \<^verbatim>\<open>None\<close> raise
  TypeError.\<close>

definition select_metric ::
  "('p, 't, 'z) reporter_scheme \<Rightarrow> ClassificationMetrics \<Rightarrow> py_error + real option" where
  "select_metric self metrics =
     (if model_select_metric self = ACCURACY then Inr (Some (accuracy metrics))
      else if model_select_metric self = ROC_AUC then Inr (roc_auc metrics)
      else if model_select_metric self = MCC then Inr (mcc metrics)
      else if model_select_metric self = MACRO_F1
        then Inr (Some (f1 (macro_scores (macro_prf1_metrics metrics))))
      else if model_select_metric self = LABEL_F1
        then (case dict_getitem (per_label_scores (macro_prf1_metrics metrics)) (target_label self) of
                Inl e \<Rightarrow> Inl e | Inr s \<Rightarrow> Inr (Some (f1 s)))
      else if model_select_metric self = LABEL_AVG_PRECISION
        then (case per_label_soft_scores metrics of
                None \<Rightarrow> Inl TypeError
              | Some d \<Rightarrow> (case dict_getitem d (target_label self) of
                            Inl e \<Rightarrow> Inl e | Inr s \<Rightarrow> Inr (average_precision s)))
      else if model_select_metric self = LABEL_ROC_AUC
        then (case per_label_soft_scores metrics of
                None \<Rightarrow> Inl TypeError
              | Some d \<Rightarrow> (case dict_getitem d (target_label self) of
                            Inl e \<Rightarrow> Inl e | Inr s \<Rightarrow> Inr (label_roc_auc s)))
      else if model_select_metric self = NEGATIVE_LOSS
        then (case loss metrics of None \<Rightarrow> Inl TypeError | Some l \<Rightarrow> Inr (Some (- l)))
      else Inl ValueError)"

text \<open>\<^verbatim>\<open>get_model_select_metric\<close>: the selected value, asserted not to be \<^verbatim>\<open>None\<close>.\<close>

definition get_model_select_metric ::
  "('p, 't, 'z) reporter_scheme \<Rightarrow> ClassificationMetrics \<Rightarrow> py_error + real" where
  "get_model_select_metric self metrics =
     (case select_metric self metrics of
        Inl e \<Rightarrow> Inl e
      | Inr None \<Rightarrow> Inl AssertionError
      | Inr (Some metric) \<Rightarrow> Inr metric)"

subsection \<open>What the top-k rule says\<close>

text \<open>The label that a Python index denotes in the catalogue, for an index in range.\<close>

definition in_range :: "'a list \<Rightarrow> int \<Rightarrow> bool" where
  "in_range xs i = (- int (length xs) \<le> i \<and> i < int (length xs))"

definition label_at :: "'a list \<Rightarrow> int \<Rightarrow> 'a" where
  "label_at xs i = xs ! nat (if i < 0 then int (length xs) + i else i)"

text \<open>An example is given by its scores, its top-k indices and its expected index. It is
  well formed when the top-k list is not empty and all its indices are in range; it is a hit
  when the expected label is among the labels of the top-k list.\<close>

type_synonym topk_example = "real list \<times> int list \<times> int"

definition well_formed :: "string list \<Rightarrow> topk_example \<Rightarrow> bool" where
  "well_formed names ex =
     (case ex of (_, tk, l) \<Rightarrow> tk \<noteq> [] \<and> list_all (in_range names) tk \<and> in_range names l)"

definition expected_name :: "string list \<Rightarrow> topk_example \<Rightarrow> string" where
  "expected_name names ex = (case ex of (_, tk, l) \<Rightarrow> label_at names l)"

definition first_name :: "string list \<Rightarrow> topk_example \<Rightarrow> string" where
  "first_name names ex = (case ex of (_, tk, l) \<Rightarrow> label_at names (hd tk))"

definition is_hit :: "string list \<Rightarrow> topk_example \<Rightarrow> bool" where
  "is_hit names ex = (case ex of (_, tk, l) \<Rightarrow> label_at names l \<in> set (map (label_at names) tk))"

definition as_prediction :: "topk_example \<Rightarrow> LabelTopKPrediction" where
  "as_prediction ex = (case ex of (s, tk, l) \<Rightarrow> (s, tk, Value l))"

definition count_where :: "('a \<Rightarrow> bool) \<Rightarrow> 'a list \<Rightarrow> int" where
  "count_where P xs = int (length (filter P xs))"

subsection \<open>What model selection resolves\<close>

text \<open>The value that the spec's model-selection extractor resolves for the configured
  identifier, \<open>None\<close> when the report does not have it: the accuracy, the overall ROC-AUC,
  the MCC, the macro F1, the F1, average precision or ROC-AUC of the target label, the
  negation of the loss.\<close>

definition entry_of :: "(string \<times> 'v) list \<Rightarrow> string option \<Rightarrow> 'v option" where
  "entry_of d key = (case key of None \<Rightarrow> None | Some k \<Rightarrow> map_of d k)"

definition resolved_value ::
  "('p, 't, 'z) reporter_scheme \<Rightarrow> ClassificationMetrics \<Rightarrow> real option" where
  "resolved_value self metrics =
     (case model_select_metric self of
        ACCURACY \<Rightarrow> Some (accuracy metrics)
      | ROC_AUC \<Rightarrow> roc_auc metrics
      | MCC \<Rightarrow> mcc metrics
      | MACRO_F1 \<Rightarrow> Some (f1 (macro_scores (macro_prf1_metrics metrics)))
      | LABEL_F1 \<Rightarrow>
          map_option f1 (entry_of (per_label_scores (macro_prf1_metrics metrics)) (target_label self))
      | LABEL_AVG_PRECISION \<Rightarrow>
          Option.bind (per_label_soft_scores metrics)
            (\<lambda>d. Option.bind (entry_of d (target_label self)) average_precision)
      | LABEL_ROC_AUC \<Rightarrow>
          Option.bind (per_label_soft_scores metrics)
            (\<lambda>d. Option.bind (entry_of d (target_label self)) label_roc_auc)
      | NEGATIVE_LOSS \<Rightarrow> map_option uminus (loss metrics))"

subsection \<open>Aligned batches\<close>

text \<open>Batches whose predictions and targets have the same length.\<close>

definition aligned :: "('p, 't, 'x) batch_call \<Rightarrow> bool" where
  "aligned b = (length (arg_preds b) = length (arg_targets b))"

subsection \<open>Loading the metric identifier\<close>

text \<open>Modelled from the spec: the loader that turns the identifier written in a
  configuration into a member of the enumeration is not among the sources. The spec: the
  identifier comes from the fixed set of the eight values, and requesting an unknown
  identifier is a configuration error, fatal and surfaced immediately.\<close>

definition load_model_select_metric :: "string \<Rightarrow> py_error + ComparableClassificationMetric" where
  "load_model_select_metric ident =
     (case find (\<lambda>m. metric_value m = ident) metric_members of
        None \<Rightarrow> Inl ConfigurationError
      | Some m \<Rightarrow> Inr m)"

text \<open>Configuration time: the identifier is loaded into the configuration, then
  \<^verbatim>\<open>from_config_and_label_names\<close> builds the reporter.\<close>

definition configure :: "string \<Rightarrow> Config \<Rightarrow> string list \<Rightarrow> py_error + ('p, 't) reporter" where
  "configure ident config names =
     (case load_model_select_metric ident of
        Inl e \<Rightarrow> Inl e
      | Inr m \<Rightarrow> from_config_and_label_names (config\<lparr>cfg_model_select_metric := m\<rparr>) names)"

subsection \<open>What the top-k selection returns\<close>

text \<open>A model input from which \<^verbatim>\<open>add_batch_stats\<close> can read a batch size: a generator, or a
  tuple with a first element.\<close>

definition m_input_ok :: "'x model_input \<Rightarrow> bool" where
  "m_input_ok m_input = (case m_input of MGenerator g \<Rightarrow> True | MTuple ts \<Rightarrow> ts \<noteq> [])"

text \<open>\<open>idxs\<close> are the indices of \<open>k\<close> highest scores of \<open>row\<close>, highest first: \<open>k\<close> different
  positions of the row in the order of falling scores, and no position outside them has a
  higher score than one of them. Where scores are equal, several lists qualify.\<close>

definition k_highest :: "real list \<Rightarrow> nat \<Rightarrow> nat list \<Rightarrow> bool" where
  "k_highest row k idxs =
     (length idxs = k \<and> distinct idxs \<and> list_all (\<lambda>i. i < length row) idxs
      \<and> sorted_wrt (\<lambda>i j. row ! j \<le> row ! i) idxs
      \<and> list_all (\<lambda>i. list_all (\<lambda>j. j \<in> set idxs \<or> row ! j \<le> row ! i) [0 ..< length row]) idxs)"

text \<open>One selection of \<open>k\<close> highest scores: the first \<open>k\<close> positions of the row sorted by
  falling score. It serves as the selection on concrete rows whose scores all differ,
  where the selection is unique.\<close>

definition sorted_selection :: "real list \<Rightarrow> nat \<Rightarrow> nat list" where
  "sorted_selection row k = take k (sort_key (\<lambda>i. - (row ! i)) [0 ..< length row])"

text \<open>A call of a pass of the top-k reporter over the catalogue \<open>names\<close> that is in order: the
  batch size can be read, the score matrix has one column per label and one row per target,
  every row has that many entries, and every target is an index into the catalogue; and the
  selection made on its rows is one of \<open>k\<close> highest scores.\<close>

definition topk_batch_ok :: "string list \<Rightarrow> ('p, int, 'x) topk_batch_call \<Rightarrow> bool" where
  "topk_batch_ok names b =
     (m_input_ok (arg_m_input b) \<and> arg_n_cols b = length names
      \<and> list_all (\<lambda>row. length row = arg_n_cols b) (arg_scores b)
      \<and> length (arg_targets b) = length (arg_scores b)
      \<and> list_all (in_range names) (arg_targets b))"

definition selection_ok ::
  "(real list \<Rightarrow> nat \<Rightarrow> nat list) \<Rightarrow> nat \<Rightarrow> ('p, 't, 'x) topk_batch_call \<Rightarrow> bool" where
  "selection_ok sel k b = list_all (\<lambda>row. k_highest row k (sel row k)) (arg_scores b)"

text \<open>The top-k lists that a pass appends, and the examples they form with the targets,
  without scores.\<close>

definition selected_indices ::
  "(real list \<Rightarrow> nat \<Rightarrow> nat list) \<Rightarrow> nat \<Rightarrow> ('p, 't, 'x) topk_batch_call list \<Rightarrow> int list list" where
  "selected_indices sel k bs = concat (map (\<lambda>b. map (\<lambda>row. map int (sel row k)) (arg_scores b)) bs)"

definition topk_examples :: "int list list \<Rightarrow> int list \<Rightarrow> topk_example list" where
  "topk_examples tks ts = map (\<lambda>(tk, t). ([], tk, t)) (zip tks ts)"

subsection \<open>Concrete inputs\<close>

definition example_config :: "ComparableClassificationMetric \<Rightarrow> string option \<Rightarrow> bool \<Rightarrow> Config" where
  "example_config metric target mem_eff =
     \<lparr> cfg_output_path = ''out.tsv'', cfg_model_select_metric = metric, cfg_target_label = target,
       cfg_text_column_names = [''text''], cfg_additional_column_names = [],
       cfg_recall_at_precision_thresholds = [], cfg_is_memory_efficient = mem_eff \<rparr>"

definition example_names :: "string list" where
  "example_names = [''a'', ''b'', ''c'', ''d'']"

definition example_topk :: "topk_example list" where
  "example_topk = [([], [0, 1, 2], 2), ([], [1, 0, 2], 3)]"

definition example_reporter ::
  "ComparableClassificationMetric \<Rightarrow> string option \<Rightarrow> bool \<Rightarrow> (int, int) reporter" where
  "example_reporter metric target mem_eff =
     init_reporter [''a'', ''b''] [ConsoleChannel] metric target [''text''] [] [] mem_eff"

text \<open>A report of a memory-efficient pass over two labels: no soft scores, loss 0.4.\<close>

definition example_metrics :: ClassificationMetrics where
  "example_metrics =
     \<lparr> accuracy = 1 / 2,
       macro_prf1_metrics =
         \<lparr> per_label_scores = [(''a'', \<lparr> precision = 1 / 2, recall = 1, f1 = 2 / 3 \<rparr>)],
           macro_scores = \<lparr> precision = 1 / 2, recall = 1, f1 = 2 / 3 \<rparr> \<rparr>,
       per_label_soft_scores = Some [], mcc = None, roc_auc = None, loss = Some (4 / 10) \<rparr>"

text \<open>A top-k reporter over four labels, before the first batch.\<close>

definition example_topk_reporter :: "int \<Rightarrow> bool \<Rightarrow> (int, int) topk_reporter" where
  "example_topk_reporter k mem_eff =
     \<lparr> label_names = example_names, channels = [ConsoleChannel],
       model_select_metric = ACCURACY, target_label = None, text_column_names = [''text''],
       additional_column_names = [], recall_at_precision_thresholds = [],
       is_memory_efficient = mem_eff, n_batches = 0, all_preds = [], all_targets = [],
       all_scores = [], all_context = [], all_loss = [], batch_size = [],
       topk = k, all_topk_preds = [] \<rparr>"

text \<open>Two batches of a single-label task over two labels, of two examples and of one.\<close>

definition example_batches :: "(int, int, nat) batch_call list" where
  "example_batches =
     [\<lparr> arg_n_batches = 1, arg_preds = [0, 1], arg_targets = [0, 0],
        arg_scores = [[9 / 10, 1 / 10], [2 / 10, 8 / 10]], arg_loss = Some (1 / 2),
        arg_m_input = MTuple [[7, 8]], arg_context = [(''text'', CtxList [''x'', ''y''])] \<rparr>,
      \<lparr> arg_n_batches = 2, arg_preds = [1], arg_targets = [1],
        arg_scores = [[3 / 10, 7 / 10]], arg_loss = None,
        arg_m_input = MTuple [[9]], arg_context = [] \<rparr>]"

text \<open>A multi-label reporter over two labels, before the first batch, and one batch of one
  example: indicators \<open>[1, 0]\<close> predicted, labels \<open>[0]\<close> expected, padded with \<open>-1\<close>.\<close>

definition example_multi_label_reporter :: "bool \<Rightarrow> (int list, int list) reporter" where
  "example_multi_label_reporter mem_eff =
     init_reporter [''a'', ''b''] [ConsoleChannel] ACCURACY None [''text''] [] [] mem_eff"

definition example_multi_label_batch :: "(int list, int list, nat) batch_call" where
  "example_multi_label_batch =
     \<lparr> arg_n_batches = 1, arg_preds = [[1, 0]], arg_targets = [[0, -1]],
       arg_scores = [[9 / 10, 1 / 10]], arg_loss = Some (1 / 2),
       arg_m_input = MTuple [[7]], arg_context = [] \<rparr>"

text \<open>One batch of a top-k task over four labels: two examples whose scores all differ.\<close>

definition example_topk_batch :: "(int, int, nat) topk_batch_call" where
  "example_topk_batch =
     \<lparr> arg_n_batches = 1, arg_preds = [1, 0], arg_targets = [2, 1],
       arg_scores = [[1 / 10, 1 / 2, 1 / 5, 3 / 10], [2 / 5, 1 / 10, 1 / 5, 3 / 10]],
       arg_loss = None, arg_m_input = MTuple [[7, 8]], arg_context = [], arg_n_cols = 4 \<rparr>"

section \<open>Properties\<close>

subsection \<open>Validation at configuration time\<close>

text \<open>C2: \<^verbatim>\<open>from_config_and_label_names\<close> fails with an assertion error when the selected
  metric is one of \<^verbatim>\<open>label_f1\<close>, \<^verbatim>\<open>label_avg_precision\<close>, \<^verbatim>\<open>label_roc_auc\<close> and no target
  label that occurs in the label catalogue is configured, and when the selected metric is
  \<^verbatim>\<open>roc_auc\<close> or \<^verbatim>\<open>mcc\<close> and the catalogue does not have exactly two labels; for a
  configuration that passes both checks it returns a reporter with the configured catalogue,
  metric, target label and memory flag, and empty buffers.\<close>

theorem from_config_and_label_names_validation:
  fixes config :: Config and names :: "string list"
  shows
  "(cfg_model_select_metric config \<in> {LABEL_F1, LABEL_AVG_PRECISION, LABEL_ROC_AUC} \<and>
      (\<forall>t. cfg_target_label config = Some t \<longrightarrow> t \<notin> set names)
     \<longrightarrow> (from_config_and_label_names config names :: py_error + ('p, 't) reporter) = Inl AssertionError)
   \<and> (cfg_model_select_metric config \<in> {ROC_AUC, MCC} \<and> length names \<noteq> 2
     \<longrightarrow> (from_config_and_label_names config names :: py_error + ('p, 't) reporter) = Inl AssertionError)
   \<and> ((cfg_model_select_metric config \<in> {LABEL_F1, LABEL_AVG_PRECISION, LABEL_ROC_AUC}
          \<longrightarrow> (\<exists>t. cfg_target_label config = Some t \<and> t \<in> set names))
      \<and> (cfg_model_select_metric config \<in> {ROC_AUC, MCC} \<longrightarrow> length names = 2)
     \<longrightarrow> (\<exists>rep :: ('p, 't) reporter. from_config_and_label_names config names = Inr rep
            \<and> label_names rep = names
            \<and> model_select_metric rep = cfg_model_select_metric config
            \<and> target_label rep = cfg_target_label config
            \<and> is_memory_efficient rep = cfg_is_memory_efficient config
            \<and> all_preds rep = [] \<and> all_targets rep = [] \<and> all_scores rep = []))"
proof (intro conjI impI)
  assume a: "cfg_model_select_metric config \<in> {LABEL_F1, LABEL_AVG_PRECISION, LABEL_ROC_AUC} \<and>
      (\<forall>t. cfg_target_label config = Some t \<longrightarrow> t \<notin> set names)"
  show "(from_config_and_label_names config names :: py_error + ('p, 't) reporter) = Inl AssertionError"
  proof (cases "cfg_target_label config")
    case None
    with a show ?thesis by (simp add: from_config_and_label_names_def)
  next
    case (Some t)
    with a have "t \<notin> set names" by simp
    with a Some show ?thesis by (simp add: from_config_and_label_names_def)
  qed
next
  assume "cfg_model_select_metric config \<in> {ROC_AUC, MCC} \<and> length names \<noteq> 2"
  then show "(from_config_and_label_names config names :: py_error + ('p, 't) reporter) = Inl AssertionError"
    by (auto simp: from_config_and_label_names_def)
next
  assume v: "(cfg_model_select_metric config \<in> {LABEL_F1, LABEL_AVG_PRECISION, LABEL_ROC_AUC}
          \<longrightarrow> (\<exists>t. cfg_target_label config = Some t \<and> t \<in> set names))
      \<and> (cfg_model_select_metric config \<in> {ROC_AUC, MCC} \<longrightarrow> length names = 2)"
  then show "\<exists>rep :: ('p, 't) reporter. from_config_and_label_names config names = Inr rep
            \<and> label_names rep = names
            \<and> model_select_metric rep = cfg_model_select_metric config
            \<and> target_label rep = cfg_target_label config
            \<and> is_memory_efficient rep = cfg_is_memory_efficient config
            \<and> all_preds rep = [] \<and> all_targets rep = [] \<and> all_scores rep = []"
    by (auto simp: from_config_and_label_names_def init_reporter_def)
qed

theorem from_config_and_label_names_validation_witness:
  "(from_config_and_label_names (example_config LABEL_F1 (Some ''c'') False) [''a'', ''b'']
      :: py_error + (int, int) reporter) = Inl AssertionError
   \<and> (from_config_and_label_names (example_config MCC None False) [''a'', ''b'', ''c'']
      :: py_error + (int, int) reporter) = Inl AssertionError
   \<and> (\<exists>rep :: (int, int) reporter.
        from_config_and_label_names (example_config LABEL_F1 (Some ''b'') False) [''a'', ''b''] = Inr rep
        \<and> label_names rep = [''a'', ''b''])"
  using from_config_and_label_names_validation
          [of "example_config LABEL_F1 (Some ''c'') False" "[''a'', ''b'']", where ?'p = int and ?'t = int]
        from_config_and_label_names_validation
          [of "example_config MCC None False" "[''a'', ''b'', ''c'']", where ?'p = int and ?'t = int]
        from_config_and_label_names_validation
          [of "example_config LABEL_F1 (Some ''b'') False" "[''a'', ''b'']", where ?'p = int and ?'t = int]
  by (auto simp: example_config_def)

subsection \<open>The top-k loop\<close>

lemma confusions_of_update:
  "confusions_of (update m l item c) name =
     (if name = l then add_outcome item c (confusions_of m l) else confusions_of m name)"
  by (simp add: confusions_of_def update_def update_conv')

lemma keys_update: "fst ` set (update m l item c) = insert l (fst ` set m)"
proof -
  have "set (map fst (update m l item c)) = insert l (set (map fst m))"
    by (auto simp: update_def update_keys)
  then show ?thesis by simp
qed

lemma getitem_in_range: "in_range xs i \<Longrightarrow> getitem xs i = Inr (label_at xs i)"
  by (auto simp: in_range_def getitem_def label_at_def)

lemma map_getitem_in_range:
  "list_all (in_range xs) is \<Longrightarrow> map_getitem xs is = Inr (map (label_at xs) is)"
  by (induction "is") (simp_all add: getitem_in_range)

lemma getitem_first: "ys \<noteq> [] \<Longrightarrow> getitem (map f ys) 0 = Inr (f (hd ys))"
  by (cases ys) (simp_all add: getitem_def)

lemma count_where_Cons:
  "count_where P (x # xs) = (if P x then 1 else 0) + count_where P xs"
  by (simp add: count_where_def)

lemma count_where_Nil: "count_where P [] = 0"
  by (simp add: count_where_def)

lemma topk_loop_step_hit:
  assumes "well_formed names ex" "is_hit names ex"
  shows "topk_loop names (nc, confs) (as_prediction ex # rest) =
         topk_loop names (nc + 1, update confs (expected_name names ex) TP 1) rest"
  using assms
  by (cases ex)
     (simp add: well_formed_def is_hit_def as_prediction_def expected_name_def
        map_getitem_in_range getitem_in_range)

lemma topk_loop_step_miss:
  assumes "well_formed names ex" "\<not> is_hit names ex"
  shows "topk_loop names (nc, confs) (as_prediction ex # rest) =
         topk_loop names
           (nc, update (update confs (expected_name names ex) FN 1) (first_name names ex) FP 1) rest"
  using assms
  by (cases ex)
     (simp add: well_formed_def is_hit_def as_prediction_def expected_name_def first_name_def
        map_getitem_in_range getitem_in_range getitem_first)

lemma topk_loop_counts:
  assumes "list_all (well_formed names) exs"
  shows "\<exists>confs'. topk_loop names (nc, confs) (map as_prediction exs)
            = Inr (nc + length (filter (is_hit names) exs), confs')
          \<and> (\<forall>name.
               tp (confusions_of confs' name) = tp (confusions_of confs name)
                 + count_where (\<lambda>ex. is_hit names ex \<and> expected_name names ex = name) exs
             \<and> fn (confusions_of confs' name) = fn (confusions_of confs name)
                 + count_where (\<lambda>ex. \<not> is_hit names ex \<and> expected_name names ex = name) exs
             \<and> fp (confusions_of confs' name) = fp (confusions_of confs name)
                 + count_where (\<lambda>ex. \<not> is_hit names ex \<and> first_name names ex = name) exs
             \<and> tn (confusions_of confs' name) = tn (confusions_of confs name))"
  using assms
proof (induction exs arbitrary: nc confs)
  case Nil
  then show ?case by (simp add: count_where_Nil)
next
  case (Cons ex exs)
  then have wf: "well_formed names ex" and rest: "list_all (well_formed names) exs" by simp_all
  show ?case
  proof (cases "is_hit names ex")
    case True
    from Cons.IH [OF rest, of "nc + 1" "update confs (expected_name names ex) TP 1"]
    obtain confs' where
      run: "topk_loop names (nc + 1, update confs (expected_name names ex) TP 1) (map as_prediction exs)
              = Inr (nc + 1 + length (filter (is_hit names) exs), confs')"
      and cnt: "\<And>name.
               tp (confusions_of confs' name) = tp (confusions_of (update confs (expected_name names ex) TP 1) name)
                 + count_where (\<lambda>ex. is_hit names ex \<and> expected_name names ex = name) exs
             \<and> fn (confusions_of confs' name) = fn (confusions_of (update confs (expected_name names ex) TP 1) name)
                 + count_where (\<lambda>ex. \<not> is_hit names ex \<and> expected_name names ex = name) exs
             \<and> fp (confusions_of confs' name) = fp (confusions_of (update confs (expected_name names ex) TP 1) name)
                 + count_where (\<lambda>ex. \<not> is_hit names ex \<and> first_name names ex = name) exs
             \<and> tn (confusions_of confs' name) = tn (confusions_of (update confs (expected_name names ex) TP 1) name)"
      by blast
    have "topk_loop names (nc, confs) (map as_prediction (ex # exs))
            = Inr (nc + length (filter (is_hit names) (ex # exs)), confs')"
      using run True by (simp add: topk_loop_step_hit [OF wf True])
    moreover have "\<And>name.
               tp (confusions_of confs' name) = tp (confusions_of confs name)
                 + count_where (\<lambda>ex. is_hit names ex \<and> expected_name names ex = name) (ex # exs)
             \<and> fn (confusions_of confs' name) = fn (confusions_of confs name)
                 + count_where (\<lambda>ex. \<not> is_hit names ex \<and> expected_name names ex = name) (ex # exs)
             \<and> fp (confusions_of confs' name) = fp (confusions_of confs name)
                 + count_where (\<lambda>ex. \<not> is_hit names ex \<and> first_name names ex = name) (ex # exs)
             \<and> tn (confusions_of confs' name) = tn (confusions_of confs name)"
      using cnt True by (simp add: count_where_Cons confusions_of_update)
    ultimately show ?thesis by blast
  next
    case False
    let ?c1 = "update (update confs (expected_name names ex) FN 1) (first_name names ex) FP 1"
    from Cons.IH [OF rest, of nc ?c1]
    obtain confs' where
      run: "topk_loop names (nc, ?c1) (map as_prediction exs)
              = Inr (nc + length (filter (is_hit names) exs), confs')"
      and cnt: "\<And>name.
               tp (confusions_of confs' name) = tp (confusions_of ?c1 name)
                 + count_where (\<lambda>ex. is_hit names ex \<and> expected_name names ex = name) exs
             \<and> fn (confusions_of confs' name) = fn (confusions_of ?c1 name)
                 + count_where (\<lambda>ex. \<not> is_hit names ex \<and> expected_name names ex = name) exs
             \<and> fp (confusions_of confs' name) = fp (confusions_of ?c1 name)
                 + count_where (\<lambda>ex. \<not> is_hit names ex \<and> first_name names ex = name) exs
             \<and> tn (confusions_of confs' name) = tn (confusions_of ?c1 name)"
      by blast
    have "topk_loop names (nc, confs) (map as_prediction (ex # exs))
            = Inr (nc + length (filter (is_hit names) (ex # exs)), confs')"
      using run False by (simp add: topk_loop_step_miss [OF wf False])
    moreover have "\<And>name.
               tp (confusions_of confs' name) = tp (confusions_of confs name)
                 + count_where (\<lambda>ex. is_hit names ex \<and> expected_name names ex = name) (ex # exs)
             \<and> fn (confusions_of confs' name) = fn (confusions_of confs name)
                 + count_where (\<lambda>ex. \<not> is_hit names ex \<and> expected_name names ex = name) (ex # exs)
             \<and> fp (confusions_of confs' name) = fp (confusions_of confs name)
                 + count_where (\<lambda>ex. \<not> is_hit names ex \<and> first_name names ex = name) (ex # exs)
             \<and> tn (confusions_of confs' name) = tn (confusions_of confs name)"
      using cnt False by (simp add: count_where_Cons confusions_of_update)
    ultimately show ?thesis by blast
  qed
qed


lemma topk_loop_keys:
  assumes "list_all (well_formed names) exs"
    and "topk_loop names (nc, confs) (map as_prediction exs) = Inr (nc', confs')"
  shows "set (map fst confs') =
           set (map fst confs) \<union> expected_name names ` set exs
             \<union> first_name names ` set (filter (\<lambda>ex. \<not> is_hit names ex) exs)"
  using assms
proof (induction exs arbitrary: nc confs)
  case Nil
  then show ?case by simp
next
  case (Cons ex exs)
  then have wf: "well_formed names ex" and rest: "list_all (well_formed names) exs" by simp_all
  show ?case
  proof (cases "is_hit names ex")
    case True
    with Cons.prems(2)
    have "topk_loop names (nc + 1, update confs (expected_name names ex) TP 1) (map as_prediction exs)
            = Inr (nc', confs')"
      by (simp add: topk_loop_step_hit [OF wf True])
    from Cons.IH [OF rest this] True show ?thesis
      by (auto simp: keys_update)
  next
    case False
    with Cons.prems(2)
    have "topk_loop names
            (nc, update (update confs (expected_name names ex) FN 1) (first_name names ex) FP 1)
            (map as_prediction exs) = Inr (nc', confs')"
      by (simp add: topk_loop_step_miss [OF wf False])
    from Cons.IH [OF rest this] False show ?thesis
      by (auto simp: keys_update)
  qed
qed

text \<open>C1: for every list of well-formed top-k examples (a non-empty top-k list, all indices
  within the label catalogue), the loop of \<^verbatim>\<open>compute_topk_classification_metrics\<close> counts
  as correct exactly the examples whose expected label occurs among the labels of the top-k
  list. For every label, its TP counter is the number of hits that expect it, its FN counter
  the number of misses that expect it, its FP counter the number of misses whose first top-k
  element it is, and its TN counter stays zero; the only labels with an entry are the
  expected labels and the first top-k labels of the misses. So a miss records one FN on the
  expected label and one FP on the first element, and nothing for the other wrong guesses.\<close>

theorem topk_single_attribution:
  assumes "list_all (well_formed names) exs"
  shows "\<exists>confs.
           topk_loop names (0, []) (map as_prediction exs)
             = Inr (length (filter (is_hit names) exs), confs)
         \<and> (\<forall>name. confusions_of confs name =
              \<lparr> tp = count_where (\<lambda>ex. is_hit names ex \<and> expected_name names ex = name) exs,
                fp = count_where (\<lambda>ex. \<not> is_hit names ex \<and> first_name names ex = name) exs,
                fn = count_where (\<lambda>ex. \<not> is_hit names ex \<and> expected_name names ex = name) exs,
                tn = 0 \<rparr>)
         \<and> set (map fst confs) =
              expected_name names ` set exs \<union> first_name names ` set (filter (\<lambda>ex. \<not> is_hit names ex) exs)"
proof -
  from topk_loop_counts [OF assms, of 0 "[]"]
  obtain confs where
    run: "topk_loop names (0, []) (map as_prediction exs)
            = Inr (length (filter (is_hit names) exs), confs)"
    and cnt: "\<And>name.
               tp (confusions_of confs name) = tp (confusions_of [] name)
                 + count_where (\<lambda>ex. is_hit names ex \<and> expected_name names ex = name) exs
             \<and> fn (confusions_of confs name) = fn (confusions_of [] name)
                 + count_where (\<lambda>ex. \<not> is_hit names ex \<and> expected_name names ex = name) exs
             \<and> fp (confusions_of confs name) = fp (confusions_of [] name)
                 + count_where (\<lambda>ex. \<not> is_hit names ex \<and> first_name names ex = name) exs
             \<and> tn (confusions_of confs name) = tn (confusions_of [] name)"
    by auto
  have zero: "confusions_of [] name = no_confusions" for name
    by (simp add: confusions_of_def)
  have "confusions_of confs name =
              \<lparr> tp = count_where (\<lambda>ex. is_hit names ex \<and> expected_name names ex = name) exs,
                fp = count_where (\<lambda>ex. \<not> is_hit names ex \<and> first_name names ex = name) exs,
                fn = count_where (\<lambda>ex. \<not> is_hit names ex \<and> expected_name names ex = name) exs,
                tn = 0 \<rparr>" for name
    using cnt [of name] by (simp add: zero no_confusions_def)
  moreover have "set (map fst confs) =
              expected_name names ` set exs \<union> first_name names ` set (filter (\<lambda>ex. \<not> is_hit names ex) exs)"
    using topk_loop_keys [OF assms run] by simp
  ultimately show ?thesis using run by blast
qed

lemma example_topk_facts:
  "list_all (well_formed example_names) example_topk"
  "filter (is_hit example_names) example_topk = [([], [0, 1, 2], 2)]"
  by (simp_all add: example_names_def example_topk_def well_formed_def in_range_def is_hit_def
        label_at_def)

theorem topk_single_attribution_witness:
  "list_all (well_formed example_names) example_topk
   \<and> (\<exists>confs. topk_loop example_names (0, []) (map as_prediction example_topk) = Inr (1, confs)
        \<and> confusions_of confs ''a'' = \<lparr> tp = 0, fp = 0, fn = 0, tn = 0 \<rparr>
        \<and> confusions_of confs ''b'' = \<lparr> tp = 0, fp = 1, fn = 0, tn = 0 \<rparr>
        \<and> confusions_of confs ''c'' = \<lparr> tp = 1, fp = 0, fn = 0, tn = 0 \<rparr>
        \<and> confusions_of confs ''d'' = \<lparr> tp = 0, fp = 0, fn = 1, tn = 0 \<rparr>
        \<and> set (map fst confs) = {''b'', ''c'', ''d''})"
proof -
  have wf: "list_all (well_formed example_names) example_topk"
    by (rule example_topk_facts)
  from topk_single_attribution [OF wf]
  obtain confs where
    run: "topk_loop example_names (0, []) (map as_prediction example_topk)
            = Inr (length (filter (is_hit example_names) example_topk), confs)"
    and cnt: "\<And>name. confusions_of confs name =
              \<lparr> tp = count_where (\<lambda>ex. is_hit example_names ex \<and> expected_name example_names ex = name) example_topk,
                fp = count_where (\<lambda>ex. \<not> is_hit example_names ex \<and> first_name example_names ex = name) example_topk,
                fn = count_where (\<lambda>ex. \<not> is_hit example_names ex \<and> expected_name example_names ex = name) example_topk,
                tn = 0 \<rparr>"
    and keys: "set (map fst confs) =
              expected_name example_names ` set example_topk
                \<union> first_name example_names ` set (filter (\<lambda>ex. \<not> is_hit example_names ex) example_topk)"
    by blast
  have ev: "is_hit example_names ([], [0, 1, 2], 2)" "\<not> is_hit example_names ([], [1, 0, 2], 3)"
    "expected_name example_names ([], [0, 1, 2], 2) = ''c''"
    "expected_name example_names ([], [1, 0, 2], 3) = ''d''"
    "first_name example_names ([], [1, 0, 2], 3) = ''b''"
    by (simp_all add: example_names_def is_hit_def expected_name_def first_name_def label_at_def)
  have "topk_loop example_names (0, []) (map as_prediction example_topk) = Inr (1, confs)"
    using run by (simp add: example_topk_facts)
  moreover have "confusions_of confs ''a'' = \<lparr> tp = 0, fp = 0, fn = 0, tn = 0 \<rparr>"
    "confusions_of confs ''b'' = \<lparr> tp = 0, fp = 1, fn = 0, tn = 0 \<rparr>"
    "confusions_of confs ''c'' = \<lparr> tp = 1, fp = 0, fn = 0, tn = 0 \<rparr>"
    "confusions_of confs ''d'' = \<lparr> tp = 0, fp = 0, fn = 1, tn = 0 \<rparr>"
    by (simp_all add: cnt count_where_def example_topk_def ev)
  moreover have "set (map fst confs) = {''b'', ''c'', ''d''}"
    unfolding keys by (auto simp: example_topk_def ev)
  ultimately show ?thesis using wf by blast
qed

subsection \<open>The report of the top-k variant\<close>

lemma topk_loop_total:
  assumes "list_all (well_formed names) exs"
  shows "\<exists>res. topk_loop names (nc, confs) (map as_prediction exs) = Inr res"
  using topk_loop_counts [OF assms, of nc confs] by blast

lemma compute_topk_fields:
  assumes "compute_topk_classification_metrics predictions names loss_v log_per_label = Inr report"
  shows "per_label_soft_scores report = Some [] \<and> mcc report = None \<and> roc_auc report = None"
  using assms
  by (auto simp: compute_topk_classification_metrics_def split: sum.splits prod.splits)

text \<open>C6: whenever \<^verbatim>\<open>compute_topk_classification_metrics\<close> returns a report, called directly
  or from \<^verbatim>\<open>calculate_metric\<close> of a top-k reporter with the memory flag set either way,
  the per-label soft scores of the report are the empty dictionary and its MCC and overall
  ROC-AUC are \<^verbatim>\<open>None\<close>; and for well-formed examples it does return a report.\<close>

theorem topk_report_has_no_soft_scores:
  "(\<forall>report.
      compute_topk_classification_metrics predictions names loss_v log_per_label = Inr report
      \<or> topk_calculate_metric loss_v (self\<lparr>is_memory_efficient := flag\<rparr>) = Inr report
      \<longrightarrow> per_label_soft_scores report = Some [] \<and> mcc report = None \<and> roc_auc report = None)
   \<and> (list_all (well_formed names) exs \<longrightarrow>
        (\<exists>report. compute_topk_classification_metrics (map as_prediction exs) names loss_v
                    log_per_label = Inr report))"
proof (intro conjI allI impI)
  fix report
  assume "compute_topk_classification_metrics predictions names loss_v log_per_label = Inr report
      \<or> topk_calculate_metric loss_v (self\<lparr>is_memory_efficient := flag\<rparr>) = Inr report"
  then have "per_label_soft_scores report = Some [] \<and> mcc report = None \<and> roc_auc report = None"
    unfolding topk_calculate_metric_def by (auto dest: compute_topk_fields)
  then show "per_label_soft_scores report = Some []" "mcc report = None" "roc_auc report = None"
    by simp_all
next
  assume "list_all (well_formed names) exs"
  from topk_loop_total [OF this, of 0 "[]"]
  show "\<exists>report. compute_topk_classification_metrics (map as_prediction exs) names loss_v
                    log_per_label = Inr report"
    by (auto simp: compute_topk_classification_metrics_def split: prod.splits)
qed

theorem topk_report_has_no_soft_scores_witness:
  "list_all (well_formed example_names) example_topk
   \<and> (\<exists>report. compute_topk_classification_metrics (map as_prediction example_topk) example_names
                  None True = Inr report
        \<and> per_label_soft_scores report = Some [] \<and> mcc report = None \<and> roc_auc report = None)"
proof -
  have wf: "list_all (well_formed example_names) example_topk"
    by (rule example_topk_facts)
  note inst = topk_report_has_no_soft_scores
    [where predictions = "map as_prediction example_topk" and names = example_names
       and loss_v = None and log_per_label = True and self = "example_topk_reporter 3 False"
       and flag = True and exs = example_topk]
  from inst wf obtain report where
    "compute_topk_classification_metrics (map as_prediction example_topk) example_names
       None True = Inr report" by blast
  with inst wf show ?thesis by blast
qed

text \<open>C9: on the empty list of predictions \<^verbatim>\<open>compute_topk_classification_metrics\<close> returns a
  report, and the accuracy of the report is zero.\<close>

theorem topk_empty_accuracy_zero:
  "\<exists>report. compute_topk_classification_metrics [] names loss_v log_per_label = Inr report
     \<and> accuracy report = 0"
  by (simp add: compute_topk_classification_metrics_def safe_division_def)

theorem topk_empty_accuracy_zero_witness:
  "\<exists>report. compute_topk_classification_metrics [] example_names (Some (4 / 10)) True = Inr report
     \<and> accuracy report = 0"
  using topk_empty_accuracy_zero [of example_names "Some (4 / 10)" True] .

subsection \<open>Model selection\<close>

lemma dict_getitem_entry_of:
  "dict_getitem d key = (case entry_of d key of None \<Rightarrow> Inl KeyError | Some v \<Rightarrow> Inr v)"
  by (simp add: dict_getitem_def entry_of_def split: option.splits)

text \<open>C7: \<^verbatim>\<open>get_model_select_metric\<close> ends with an exception whenever the report does not
  have the value that the configured identifier resolves to, and returns that value when the
  report has it; an exception is never a returned number. Selecting \<^verbatim>\<open>roc_auc\<close> on a report
  without overall ROC-AUC fails the assertion.\<close>

theorem get_model_select_metric_faults_iff_absent:
  "(resolved_value self metrics = None \<longrightarrow> (\<exists>e. get_model_select_metric self metrics = Inl e))
   \<and> (\<forall>v. resolved_value self metrics = Some v \<longrightarrow> get_model_select_metric self metrics = Inr v)
   \<and> (model_select_metric self = ROC_AUC \<and> roc_auc metrics = None
        \<longrightarrow> get_model_select_metric self metrics = Inl AssertionError)"
  by (cases "model_select_metric self")
     (auto simp: get_model_select_metric_def select_metric_def resolved_value_def
        dict_getitem_entry_of Option.bind_eq_None_conv
        split: option.splits sum.splits)

theorem get_model_select_metric_faults_iff_absent_witness:
  "get_model_select_metric (example_reporter ROC_AUC None True) example_metrics = Inl AssertionError
   \<and> get_model_select_metric (example_reporter NEGATIVE_LOSS None True) example_metrics
       = Inr (- (4 / 10))
   \<and> (\<exists>e. get_model_select_metric (example_reporter LABEL_F1 (Some ''b'') True) example_metrics
            = Inl e)"
proof -
  have r1: "model_select_metric (example_reporter ROC_AUC None True) = ROC_AUC
            \<and> roc_auc example_metrics = None"
    by (simp add: example_reporter_def init_reporter_def example_metrics_def)
  have r2: "resolved_value (example_reporter NEGATIVE_LOSS None True) example_metrics
            = Some (- (4 / 10))"
    by (simp add: resolved_value_def example_reporter_def init_reporter_def example_metrics_def)
  have r3: "resolved_value (example_reporter LABEL_F1 (Some ''b'') True) example_metrics = None"
    by (simp add: resolved_value_def example_reporter_def init_reporter_def example_metrics_def
          entry_of_def)
  show ?thesis
    using get_model_select_metric_faults_iff_absent
            [of "example_reporter ROC_AUC None True" example_metrics]
          get_model_select_metric_faults_iff_absent
            [of "example_reporter NEGATIVE_LOSS None True" example_metrics]
          get_model_select_metric_faults_iff_absent
            [of "example_reporter LABEL_F1 (Some ''b'') True" example_metrics]
          r1 r2 r3
    by blast
qed

text \<open>C8: an identifier that is not the value of a member of the enumeration fails at
  configuration time, before a reporter exists, as the checks of the target label and of
  the two-label catalogue do, which \<^verbatim>\<open>from_config_and_label_names\<close> makes at that time for
  a known identifier; and no reporter raises the ValueError of the last branch of
  \<^verbatim>\<open>get_model_select_metric\<close> when a metric is extracted.\<close>

theorem unknown_metric_fails_at_configuration:
  "(ident \<notin> metric_value ` set metric_members \<longrightarrow>
      (configure ident config names :: py_error + ('p, 't) reporter) = Inl ConfigurationError)
   \<and> (configure (metric_value m) config names :: py_error + ('p, 't) reporter)
       = from_config_and_label_names (config\<lparr>cfg_model_select_metric := m\<rparr>) names
   \<and> (\<forall>rep :: ('p, 't) reporter. configure ident config names = Inr rep \<longrightarrow>
        metric_value (model_select_metric rep) = ident)
   \<and> get_model_select_metric (self :: ('p, 't) reporter) metrics \<noteq> Inl ValueError"
proof (intro conjI impI allI)
  assume "ident \<notin> metric_value ` set metric_members"
  then have "find (\<lambda>m. metric_value m = ident) metric_members = None"
    by (auto simp: find_None_iff)
  then show "(configure ident config names :: py_error + ('p, 't) reporter) = Inl ConfigurationError"
    by (simp add: configure_def load_model_select_metric_def)
next
  have "find (\<lambda>m'. metric_value m' = metric_value m) metric_members = Some m"
    by (cases m) (simp_all add: metric_members_def)
  then show "(configure (metric_value m) config names :: py_error + ('p, 't) reporter)
       = from_config_and_label_names (config\<lparr>cfg_model_select_metric := m\<rparr>) names"
    by (simp add: configure_def load_model_select_metric_def)
next
  fix rep :: "('p, 't) reporter"
  assume ok: "configure ident config names = Inr rep"
  then obtain m where f: "find (\<lambda>m. metric_value m = ident) metric_members = Some m"
    and b: "from_config_and_label_names (config\<lparr>cfg_model_select_metric := m\<rparr>) names = Inr rep"
    by (auto simp: configure_def load_model_select_metric_def split: option.splits)
  from f have "metric_value m = ident" by (auto simp: find_Some_iff)
  moreover from b have "model_select_metric rep = m"
    by (auto simp: from_config_and_label_names_def init_reporter_def split: if_splits)
  ultimately show "metric_value (model_select_metric rep) = ident" by simp
next
  show "get_model_select_metric self metrics \<noteq> Inl ValueError"
    by (cases "model_select_metric self")
       (auto simp: get_model_select_metric_def select_metric_def dict_getitem_def
          split: option.splits sum.splits)
qed

theorem unknown_metric_fails_at_configuration_witness:
  "''f2'' \<notin> metric_value ` set metric_members
   \<and> (configure ''f2'' (example_config ACCURACY None False) [''a'', ''b'']
        :: py_error + (int, int) reporter) = Inl ConfigurationError
   \<and> (configure ''mcc'' (example_config ACCURACY None False) [''a'', ''b'', ''c'']
        :: py_error + (int, int) reporter) = Inl AssertionError
   \<and> get_model_select_metric (example_reporter ROC_AUC None True) example_metrics
        \<noteq> Inl ValueError"
proof -
  have h: "''f2'' \<notin> metric_value ` set metric_members"
    by (simp add: metric_members_def)
  have c: "(from_config_and_label_names
              ((example_config ACCURACY None False)\<lparr>cfg_model_select_metric := MCC\<rparr>)
              [''a'', ''b'', ''c''] :: py_error + (int, int) reporter) = Inl AssertionError"
    by (simp add: from_config_and_label_names_def example_config_def)
  from unknown_metric_fails_at_configuration
         [where ident = "''f2''" and config = "example_config ACCURACY None False"
            and names = "[''a'', ''b'']" and m = ACCURACY
            and self = "example_reporter ROC_AUC None True" and metrics = example_metrics]
       unknown_metric_fails_at_configuration
         [where ident = "''f2''" and config = "example_config ACCURACY None False"
            and names = "[''a'', ''b'', ''c'']" and m = MCC
            and self = "example_reporter ROC_AUC None True" and metrics = example_metrics]
       h c
  show ?thesis by simp
qed

subsection \<open>Accumulation in memory-efficient mode\<close>

lemma add_batch_stats_buffers:
  "all_preds (fst (add_batch_stats self n preds targets scores loss_v m_input context))
     = all_preds self @ preds"
  "all_targets (fst (add_batch_stats self n preds targets scores loss_v m_input context))
     = all_targets self @ targets"
  "all_scores (fst (add_batch_stats self n preds targets scores loss_v m_input context))
     = (if is_memory_efficient self then all_scores self else all_scores self @ scores)"
  by (simp_all add: add_batch_stats_def Let_def aggregate_data_def
        split: option.splits model_input.splits sum.splits)

lemma add_batch_stats_config:
  "is_memory_efficient (fst (add_batch_stats self n preds targets scores loss_v m_input context))
     = is_memory_efficient self"
  "label_names (fst (add_batch_stats self n preds targets scores loss_v m_input context))
     = label_names self"
  "recall_at_precision_thresholds
     (fst (add_batch_stats self n preds targets scores loss_v m_input context))
     = recall_at_precision_thresholds self"
  by (simp_all add: add_batch_stats_def Let_def
        split: option.splits model_input.splits sum.splits)

lemma add_all_batches_config:
  "is_memory_efficient (fst (add_all_batches self bs)) = is_memory_efficient self
   \<and> label_names (fst (add_all_batches self bs)) = label_names self
   \<and> recall_at_precision_thresholds (fst (add_all_batches self bs))
       = recall_at_precision_thresholds self"
proof (induction bs arbitrary: self)
  case Nil
  then show ?case by simp
next
  case (Cons b bs)
  obtain s err where step:
    "add_batch_stats self (arg_n_batches b) (arg_preds b) (arg_targets b) (arg_scores b)
       (arg_loss b) (arg_m_input b) (arg_context b) = (s, err)"
    by (cases "add_batch_stats self (arg_n_batches b) (arg_preds b) (arg_targets b)
                 (arg_scores b) (arg_loss b) (arg_m_input b) (arg_context b)")
  have cfg: "is_memory_efficient s = is_memory_efficient self" "label_names s = label_names self"
    "recall_at_precision_thresholds s = recall_at_precision_thresholds self"
    using add_batch_stats_config [of self "arg_n_batches b" "arg_preds b" "arg_targets b"
        "arg_scores b" "arg_loss b" "arg_m_input b" "arg_context b"] step by simp_all
  show ?case
  proof (cases err)
    case None
    with step cfg Cons.IH [of s] show ?thesis by simp
  next
    case (Some e)
    with step cfg show ?thesis by simp
  qed
qed

lemma add_all_batches_scores_empty:
  assumes "is_memory_efficient self" "all_scores self = []"
  shows "all_scores (fst (add_all_batches self bs)) = []"
  using assms
proof (induction bs arbitrary: self)
  case Nil
  then show ?case by simp
next
  case (Cons b bs)
  obtain s err where step:
    "add_batch_stats self (arg_n_batches b) (arg_preds b) (arg_targets b) (arg_scores b)
       (arg_loss b) (arg_m_input b) (arg_context b) = (s, err)"
    by (cases "add_batch_stats self (arg_n_batches b) (arg_preds b) (arg_targets b)
                 (arg_scores b) (arg_loss b) (arg_m_input b) (arg_context b)")
  have s: "is_memory_efficient s" "all_scores s = []"
    using add_batch_stats_config(1) [of self "arg_n_batches b" "arg_preds b" "arg_targets b"
        "arg_scores b" "arg_loss b" "arg_m_input b" "arg_context b"]
      add_batch_stats_buffers(3) [of self "arg_n_batches b" "arg_preds b" "arg_targets b"
        "arg_scores b" "arg_loss b" "arg_m_input b" "arg_context b"]
      step Cons.prems by simp_all
  show ?case
  proof (cases err)
    case None
    with step Cons.IH [OF s] show ?thesis by simp
  next
    case (Some e)
    with step s show ?thesis by simp
  qed
qed

lemma add_all_batches_aligned:
  assumes "length (all_preds self) = length (all_targets self)" "list_all aligned bs"
  shows "length (all_preds (fst (add_all_batches self bs)))
           = length (all_targets (fst (add_all_batches self bs)))"
  using assms
proof (induction bs arbitrary: self)
  case Nil
  then show ?case by simp
next
  case (Cons b bs)
  obtain s err where step:
    "add_batch_stats self (arg_n_batches b) (arg_preds b) (arg_targets b) (arg_scores b)
       (arg_loss b) (arg_m_input b) (arg_context b) = (s, err)"
    by (cases "add_batch_stats self (arg_n_batches b) (arg_preds b) (arg_targets b)
                 (arg_scores b) (arg_loss b) (arg_m_input b) (arg_context b)")
  have s: "length (all_preds s) = length (all_targets s)"
    using add_batch_stats_buffers(1,2) [of self "arg_n_batches b" "arg_preds b" "arg_targets b"
        "arg_scores b" "arg_loss b" "arg_m_input b" "arg_context b"]
      step Cons.prems by (simp add: aligned_def)
  from Cons.prems have rest: "list_all aligned bs" by simp
  show ?case
  proof (cases err)
    case None
    with step Cons.IH [OF s rest] show ?thesis by simp
  next
    case (Some e)
    with step s show ?thesis by simp
  qed
qed

lemma zip_longest3_no_scores:
  assumes "length ps = length ts"
  shows "zip_longest3 [] (map Value ps) (map Value ts) [] EmptyList EmptyList
           = map (\<lambda>(p, t). ([], Value p, Value t)) (zip ps ts)"
  using assms
  by (intro nth_equalityI) (simp_all add: zip_longest3_def nth_or_def)

text \<open>C3: in memory-efficient mode a call of \<^verbatim>\<open>add_batch_stats\<close> leaves the score buffer as
  it was, so a pass that starts with an empty score buffer ends with an empty score buffer,
  whatever the batches; and when predictions and targets are aligned, \<^verbatim>\<open>calculate_metric\<close>
  of the single-label reporter passes on one \<^verbatim>\<open>LabelPrediction\<close> per accumulated pair of
  prediction and target, in order, each with the empty list as its scores, and passes
  \<^verbatim>\<open>average_precisions=False\<close>.\<close>

theorem memory_efficient_keeps_scores_empty:
  assumes "is_memory_efficient self"
  shows "all_scores (fst (add_batch_stats self n preds targets scores loss_v m_input ctx))
           = all_scores self
    \<and> (all_scores self = [] \<longrightarrow>
         all_scores (fst (add_all_batches self bs)) = []
       \<and> (length (all_preds self) = length (all_targets self) \<and> list_all aligned bs \<longrightarrow>
           calculate_metric compute_classification_metrics calculated_loss
               (fst (add_all_batches self bs))
             = compute_classification_metrics
                 (map (\<lambda>(p, t). ([], Value p, Value t))
                    (zip (all_preds (fst (add_all_batches self bs)))
                         (all_targets (fst (add_all_batches self bs)))))
                 (label_names self) calculated_loss False (recall_at_precision_thresholds self)))"
proof (intro conjI impI)
  show "all_scores (fst (add_batch_stats self n preds targets scores loss_v m_input ctx))
           = all_scores self"
    using assms by (simp add: add_batch_stats_buffers)
next
  assume "all_scores self = []"
  then show "all_scores (fst (add_all_batches self bs)) = []"
    by (rule add_all_batches_scores_empty [OF assms])
next
  assume "all_scores self = []"
  then have e: "all_scores (fst (add_all_batches self bs)) = []"
    by (rule add_all_batches_scores_empty [OF assms])
  assume "length (all_preds self) = length (all_targets self) \<and> list_all aligned bs"
  then have len: "length (all_preds (fst (add_all_batches self bs)))
           = length (all_targets (fst (add_all_batches self bs)))"
    using add_all_batches_aligned by blast
  show "calculate_metric compute_classification_metrics calculated_loss
             (fst (add_all_batches self bs))
           = compute_classification_metrics
               (map (\<lambda>(p, t). ([], Value p, Value t))
                  (zip (all_preds (fst (add_all_batches self bs)))
                       (all_targets (fst (add_all_batches self bs)))))
               (label_names self) calculated_loss False (recall_at_precision_thresholds self)"
    using assms
    by (simp add: calculate_metric_def label_predictions_def e zip_longest3_no_scores [OF len]
          add_all_batches_config)
qed

lemma example_batches_run:
  "fst (add_all_batches (example_reporter ACCURACY None True) example_batches)
     = (example_reporter ACCURACY None True)
         \<lparr> n_batches := 2, all_preds := [0, 1, 1], all_targets := [0, 0, 1],
           all_context := [(''text'', [''x'', ''y''])], all_loss := [1 / 2],
           batch_size := [2, 1] \<rparr>"
  by (simp add: example_batches_def example_reporter_def init_reporter_def add_batch_stats_def
        aggregate_data_def getitem_def)

theorem memory_efficient_keeps_scores_empty_witness:
  "is_memory_efficient (example_reporter ACCURACY None True)
   \<and> all_scores (example_reporter ACCURACY None True) = []
   \<and> all_scores (fst (add_all_batches (example_reporter ACCURACY None True) example_batches)) = []
   \<and> calculate_metric (\<lambda>predictions names l average_precisions thresholds. predictions) ()
       (fst (add_all_batches (example_reporter ACCURACY None True) example_batches))
     = [([], Value 0, Value 0), ([], Value 1, Value 0), ([], Value 1, Value 1)]"
proof -
  have h: "is_memory_efficient (example_reporter ACCURACY None True)"
    "all_scores (example_reporter ACCURACY None True) = []"
    by (simp_all add: example_reporter_def init_reporter_def)
  have a: "length (all_preds (example_reporter ACCURACY None True))
             = length (all_targets (example_reporter ACCURACY None True))
           \<and> list_all aligned example_batches"
    by (simp add: example_reporter_def init_reporter_def example_batches_def aligned_def)
  from memory_efficient_keeps_scores_empty
      [OF h(1), where bs = example_batches
         and compute_classification_metrics
           = "\<lambda>predictions names l average_precisions thresholds. predictions"
         and calculated_loss = "()" and n = 1 and preds = "[0, 1]" and targets = "[0, 0]"
         and scores = "[[9 / 10, 1 / 10], [2 / 10, 8 / 10]]" and loss_v = None
         and m_input = "MTuple [[7, 8 :: nat]]" and ctx = "[]"] h(2) a
  show ?thesis using h by (simp add: example_batches_run)
qed

subsection \<open>The multi-label reporter in memory-efficient mode\<close>

text \<open>C4, at a failing input: a multi-label reporter in memory-efficient mode takes one
  batch of one example. The prediction and the target are accumulated, the score row is
  withheld, and the list that \<^verbatim>\<open>calculate_metric\<close> passes on is empty: the accumulated
  pair is not in it.\<close>

theorem multi_label_memory_efficient_drops_examples:
  "all_preds (fst (add_all_batches (example_multi_label_reporter True) [example_multi_label_batch]))
     = [[1, 0]]
   \<and> all_targets (fst (add_all_batches (example_multi_label_reporter True) [example_multi_label_batch]))
     = [[0, -1]]
   \<and> all_scores (fst (add_all_batches (example_multi_label_reporter True) [example_multi_label_batch]))
     = []
   \<and> multi_label_calculate_metric (\<lambda>predictions names l average_precisions thresholds. predictions)
       () (fst (add_all_batches (example_multi_label_reporter True) [example_multi_label_batch]))
     = []"
  by (simp add: example_multi_label_reporter_def example_multi_label_batch_def init_reporter_def
        add_batch_stats_def aggregate_data_def getitem_def multi_label_calculate_metric_def
        label_list_predictions_def)

subsection \<open>The batch-size trace\<close>

text \<open>C5, at a failing input: the model input is a generator whose first tensor has three
  rows. \<^verbatim>\<open>add_batch_stats\<close> appends 1, the length of the tuple that \<^verbatim>\<open>tee\<close> returns, to the
  batch-size trace; for the same tensor in a tuple it appends 3.\<close>

theorem generator_batch_size_is_one:
  "batch_size (fst (add_batch_stats (example_reporter ACCURACY None False) 1 [0, 1, 1] [0, 1, 0]
                 [[9 / 10, 1 / 10], [2 / 10, 8 / 10], [3 / 10, 7 / 10]] None
                 (MGenerator [[7, 8, 9 :: nat]]) [])) = [1]
   \<and> batch_size (fst (add_batch_stats (example_reporter ACCURACY None False) 1 [0, 1, 1] [0, 1, 0]
                 [[9 / 10, 1 / 10], [2 / 10, 8 / 10], [3 / 10, 7 / 10]] None
                 (MTuple [[7, 8, 9 :: nat]]) [])) = [3]"
  by (simp add: example_reporter_def init_reporter_def add_batch_stats_def aggregate_data_def
        getitem_def tee_def)

subsection \<open>The top-k indices of a pass\<close>

lemma sorted_selection_k_highest:
  assumes "k \<le> length row"
  shows "k_highest row k (sorted_selection row k)"
proof -
  let ?f = "\<lambda>i. - (row ! i)"
  let ?xs = "sort_key ?f [0 ..< length row]"
  have dist: "distinct ?xs" by simp
  have set_xs: "set ?xs = {0 ..< length row}" by simp
  have srt: "sorted (map ?f ?xs)" by (rule sorted_sort_key)
  have "sorted (map ?f (take k ?xs) @ map ?f (drop k ?xs))"
    using srt by (metis append_take_drop_id map_append)
  then have ord: "\<And>i j. i \<in> set (take k ?xs) \<Longrightarrow> j \<in> set (drop k ?xs) \<Longrightarrow> ?f i \<le> ?f j"
    and srt_take: "sorted (map ?f (take k ?xs))"
    by (auto simp: sorted_append)
  have l: "length (sorted_selection row k) = k"
    using assms by (simp add: sorted_selection_def)
  have d: "distinct (sorted_selection row k)"
    using dist by (simp add: sorted_selection_def)
  have r: "list_all (\<lambda>i. i < length row) (sorted_selection row k)"
  proof -
    have "set (take k ?xs) \<subseteq> set ?xs" by (rule set_take_subset)
    then show ?thesis unfolding sorted_selection_def list_all_iff using set_xs by auto
  qed
  have o: "sorted_wrt (\<lambda>i j. row ! j \<le> row ! i) (sorted_selection row k)"
    using srt_take by (simp add: sorted_selection_def sorted_map)
  have h: "list_all (\<lambda>i. list_all (\<lambda>j. j \<in> set (sorted_selection row k) \<or> row ! j \<le> row ! i)
             [0 ..< length row]) (sorted_selection row k)"
    unfolding list_all_iff
  proof (intro ballI)
    fix i j
    assume i: "i \<in> set (sorted_selection row k)" and j: "j \<in> set [0 ..< length row]"
    show "j \<in> set (sorted_selection row k) \<or> row ! j \<le> row ! i"
    proof (cases "j \<in> set (sorted_selection row k)")
      case True
      then show ?thesis by simp
    next
      case False
      from j have "j \<in> set ?xs" by simp
      then have "j \<in> set (take k ?xs) \<union> set (drop k ?xs)"
        by (metis append_take_drop_id set_append)
      with False have "j \<in> set (drop k ?xs)" by (simp add: sorted_selection_def)
      with i ord [of i j] have "?f i \<le> ?f j" by (simp add: sorted_selection_def)
      then show ?thesis by simp
    qed
  qed
  from l d r o h show ?thesis by (simp add: k_highest_def)
qed

lemma torch_topk_out_of_range:
  assumes "k < 0 \<or> int (n_cols batch_scores) < k"
  shows "torch_topk sel batch_scores k = Inl RuntimeError"
  using assms by (auto simp: torch_topk_def)

lemma add_batch_stats_raises:
  "snd (add_batch_stats self n preds targets scores loss_v m_input ctx) = None
     \<longleftrightarrow> m_input_ok m_input"
  by (cases m_input)
     (auto simp: add_batch_stats_def Let_def m_input_ok_def getitem_def split: sum.splits)

lemma add_batch_stats_topk_fields:
  "topk (fst (add_batch_stats self n preds targets scores loss_v m_input ctx)) = topk self"
  "all_topk_preds (fst (add_batch_stats self n preds targets scores loss_v m_input ctx))
     = all_topk_preds self"
  by (simp_all add: add_batch_stats_def Let_def
        split: option.splits model_input.splits sum.splits)

lemma topk_add_batch_stats_appends:
  assumes "m_input_ok m_input" and "0 \<le> topk self" and "topk self \<le> int (n_cols scores)"
  shows "\<exists>s. topk_add_batch_stats sel self n preds targets scores loss_v m_input ctx
               = (s, None)
    \<and> all_topk_preds s
         = all_topk_preds self @ map (\<lambda>row. map int (sel row (nat (topk self)))) (t_rows scores)
    \<and> all_targets s = all_targets self @ targets
    \<and> all_scores s = (if is_memory_efficient self then all_scores self
                       else all_scores self @ t_rows scores)
    \<and> topk s = topk self \<and> label_names s = label_names self
    \<and> is_memory_efficient s = is_memory_efficient self"
proof -
  obtain s0 err where base:
    "add_batch_stats self n preds targets (t_rows scores) loss_v m_input ctx = (s0, err)"
    by (cases "add_batch_stats self n preds targets (t_rows scores) loss_v m_input ctx")
  have err: "err = None"
    using add_batch_stats_raises [of self n preds targets "t_rows scores" loss_v m_input ctx]
      base assms(1) by simp
  have s0: "topk s0 = topk self" "all_topk_preds s0 = all_topk_preds self"
    "all_scores s0 = (if is_memory_efficient self then all_scores self
                      else all_scores self @ t_rows scores)"
    "all_targets s0 = all_targets self @ targets"
    "label_names s0 = label_names self" "is_memory_efficient s0 = is_memory_efficient self"
    using add_batch_stats_topk_fields [of self n preds targets "t_rows scores" loss_v m_input ctx]
      add_batch_stats_buffers(2,3) [of self n preds targets "t_rows scores" loss_v m_input ctx]
      add_batch_stats_config(1,2) [of self n preds targets "t_rows scores" loss_v m_input ctx]
      base by simp_all
  let ?s = "s0\<lparr>all_topk_preds := all_topk_preds self
                  @ map (\<lambda>row. map int (sel row (nat (topk self)))) (t_rows scores)\<rparr>"
  have "topk_add_batch_stats sel self n preds targets scores loss_v m_input ctx = (?s, None)"
    using assms(2,3)
    by (simp add: topk_add_batch_stats_def base err aggregate_topkpreds_def s0 torch_topk_def
          aggregate_data_def)
  then show ?thesis
    using s0 by (intro exI [of _ ?s]) simp
qed

lemma topk_add_all_batches_appends:
  assumes "0 \<le> topk self" and "topk self \<le> int (length (label_names self))"
    and "list_all (topk_batch_ok (label_names self)) bs"
  shows "\<exists>s. topk_add_all_batches sel self bs = (s, None)
    \<and> all_topk_preds s = all_topk_preds self @ selected_indices sel (nat (topk self)) bs
    \<and> all_targets s = all_targets self @ concat (map arg_targets bs)
    \<and> all_scores s = (if is_memory_efficient self then all_scores self
                       else all_scores self @ concat (map arg_scores bs))
    \<and> topk s = topk self \<and> label_names s = label_names self
    \<and> is_memory_efficient s = is_memory_efficient self"
  using assms
proof (induction bs arbitrary: self)
  case Nil
  then show ?case by (simp add: selected_indices_def)
next
  case (Cons b bs)
  from Cons.prems(3) have b: "topk_batch_ok (label_names self) b"
    and rest: "list_all (topk_batch_ok (label_names self)) bs" by simp_all
  let ?t = "\<lparr> n_cols = arg_n_cols b, t_rows = arg_scores b \<rparr>"
  from b have mi: "m_input_ok (arg_m_input b)" and k: "topk self \<le> int (n_cols ?t)"
    using Cons.prems(2) by (simp_all add: topk_batch_ok_def)
  from topk_add_batch_stats_appends [OF mi Cons.prems(1) k, of sel "arg_n_batches b"
      "arg_preds b" "arg_targets b" "arg_loss b" "arg_context b"]
  obtain s1 where step:
    "topk_add_batch_stats sel self (arg_n_batches b) (arg_preds b) (arg_targets b) ?t
       (arg_loss b) (arg_m_input b) (arg_context b) = (s1, None)"
    and s1: "all_topk_preds s1
         = all_topk_preds self @ map (\<lambda>row. map int (sel row (nat (topk self)))) (arg_scores b)"
      "all_targets s1 = all_targets self @ arg_targets b"
      "all_scores s1 = (if is_memory_efficient self then all_scores self
                        else all_scores self @ arg_scores b)"
      "topk s1 = topk self" "label_names s1 = label_names self"
      "is_memory_efficient s1 = is_memory_efficient self"
    by auto
  have p1: "0 \<le> topk s1" "topk s1 \<le> int (length (label_names s1))"
    "list_all (topk_batch_ok (label_names s1)) bs"
    using Cons.prems(1,2) rest s1 by simp_all
  from Cons.IH [OF p1] obtain s where run: "topk_add_all_batches sel s1 bs = (s, None)"
    and s: "all_topk_preds s = all_topk_preds s1 @ selected_indices sel (nat (topk s1)) bs"
      "all_targets s = all_targets s1 @ concat (map arg_targets bs)"
      "all_scores s = (if is_memory_efficient s1 then all_scores s1
                       else all_scores s1 @ concat (map arg_scores bs))"
      "topk s = topk s1" "label_names s = label_names s1"
      "is_memory_efficient s = is_memory_efficient s1"
    by auto
  have "topk_add_all_batches sel self (b # bs) = (s, None)"
    using step run by simp
  then show ?case
    using s s1 by (intro exI [of _ s]) (simp add: selected_indices_def)
qed


lemma topk_loop_ignores_scores:
  assumes "map snd ps = map snd qs"
  shows "topk_loop names (nc, confs) ps = topk_loop names (nc, confs) qs"
  using assms
proof (induction ps arbitrary: qs nc confs)
  case Nil
  then show ?case by simp
next
  case (Cons p ps)
  then obtain q qs' where qs: "qs = q # qs'" by (cases qs) auto
  obtain s tk l where p: "p = (s, tk, l)" by (cases p)
  obtain s' tk' l' where q: "q = (s', tk', l')" by (cases q)
  from Cons.prems qs p q have same: "tk' = tk" "l' = l" and rest: "map snd ps = map snd qs'"
    by simp_all
  show ?case
    unfolding qs p q same
    by (simp add: Cons.IH [OF rest] split: sum.splits slot.splits)
qed

lemma compute_topk_ignores_scores:
  assumes "map snd ps = map snd qs"
  shows "compute_topk_classification_metrics ps names loss_v log_per_label
           = compute_topk_classification_metrics qs names loss_v log_per_label"
proof -
  from assms have len: "length ps = length qs" by (rule map_eq_imp_length_eq)
  show ?thesis
    unfolding compute_topk_classification_metrics_def topk_loop_ignores_scores [OF assms] len
    by (rule refl)
qed

lemma topk_label_predictions_examples:
  assumes "length (all_topk_preds self) = length (all_targets self)"
    and "length (all_scores self) \<le> length (all_targets self)"
  shows "map snd (topk_label_predictions self)
           = map snd (map as_prediction (topk_examples (all_topk_preds self) (all_targets self)))"
  using assms
  by (intro nth_equalityI)
     (simp_all add: topk_label_predictions_def zip_longest3_def nth_or_def topk_examples_def
        as_prediction_def)

lemma topk_examples_well_formed:
  assumes "list_all (\<lambda>tk. tk \<noteq> [] \<and> list_all (in_range names) tk) tks"
    and "list_all (in_range names) ts"
  shows "list_all (well_formed names) (topk_examples tks ts)"
  using assms
proof (induction tks arbitrary: ts)
  case Nil
  then show ?case by (simp add: topk_examples_def)
next
  case (Cons tk tks)
  show ?case
  proof (cases ts)
    case Nil
    then show ?thesis by (simp add: topk_examples_def)
  next
    case (Cons t ts')
    with Cons.prems Cons.IH [of ts'] show ?thesis
      by (simp add: topk_examples_def well_formed_def)
  qed
qed

lemma k_highest_in_range:
  assumes "k_highest row k idxs" and "1 \<le> k" and "length row = length names"
  shows "map int idxs \<noteq> [] \<and> list_all (in_range names) (map int idxs) \<and> length (map int idxs) = k"
proof -
  from assms(1) have len: "length idxs = k" and r: "list_all (\<lambda>i. i < length row) idxs"
    by (simp_all add: k_highest_def)
  from len assms(2) have "idxs \<noteq> []" by auto
  moreover from r assms(3) have "list_all (in_range names) (map int idxs)"
    by (auto simp: list_all_iff in_range_def)
  ultimately show ?thesis using len by simp
qed

lemma selected_indices_in_range:
  assumes "1 \<le> k" and "list_all (topk_batch_ok names) bs" and "list_all (selection_ok sel k) bs"
  shows "list_all (\<lambda>tk. tk \<noteq> [] \<and> list_all (in_range names) tk \<and> length tk = k)
           (selected_indices sel k bs)"
  unfolding list_all_iff selected_indices_def
proof
  fix tk
  assume "tk \<in> set (concat (map (\<lambda>b. map (\<lambda>row. map int (sel row k)) (arg_scores b)) bs))"
  then obtain b row where b: "b \<in> set bs" and row: "row \<in> set (arg_scores b)"
    and tk: "tk = map int (sel row k)" by auto
  from b assms(2) have "topk_batch_ok names b" by (simp add: list_all_iff)
  with row have len: "length row = length names"
    by (simp add: topk_batch_ok_def list_all_iff)
  from b row assms(3) have "k_highest row k (sel row k)"
    by (simp add: list_all_iff selection_ok_def)
  from k_highest_in_range [OF this assms(1) len] tk
  show "tk \<noteq> [] \<and> (\<forall>i \<in> set tk. in_range names i) \<and> length tk = k"
    by (simp add: list_all_iff)
qed

lemma topk_pass_lengths:
  assumes "list_all (topk_batch_ok names) bs"
  shows "length (selected_indices sel k bs) = length (concat (map arg_scores bs))
       \<and> length (concat (map arg_targets bs)) = length (concat (map arg_scores bs))
       \<and> list_all (in_range names) (concat (map arg_targets bs))"
  using assms
  by (induction bs) (simp_all add: selected_indices_def topk_batch_ok_def)

lemma compute_topk_well_formed:
  assumes "list_all (well_formed names) exs"
  shows "\<exists>report. compute_topk_classification_metrics (map as_prediction exs) names loss_v
                    log_per_label = Inr report
           \<and> accuracy report
               = safe_division (real (length (filter (is_hit names) exs))) (real (length exs))"
proof -
  from topk_loop_counts [OF assms, of 0 "[]"] obtain confs where
    "topk_loop names (0, []) (map as_prediction exs)
       = Inr (length (filter (is_hit names) exs), confs)"
    by auto
  then show ?thesis
    by (simp add: compute_topk_classification_metrics_def)
qed

text \<open>C10: over a pass of the top-k reporter whose calls are in order and whose \<open>k\<close> is
  between 1 and the number of labels, every call of \<^verbatim>\<open>add_batch_stats\<close> succeeds and
  appends to \<^verbatim>\<open>all_topk_preds\<close> one index list per row of its score matrix, the selection
  of \<open>k\<close> highest scores of that row, whether the memory flag is set or not; the flag only
  decides whether the score rows are kept. After a pass that starts with empty buffers,
  \<^verbatim>\<open>calculate_metric\<close> computes the report of the examples formed by the top-k lists and
  the targets alone, with either setting of the flag: it returns a report, whose accuracy is
  the share of the examples that are hits.\<close>

theorem topk_preds_appended_whatever_the_flag:
  assumes "1 \<le> topk self" and "topk self \<le> int (length (label_names self))"
    and "list_all (topk_batch_ok (label_names self)) bs"
    and "list_all (selection_ok sel (nat (topk self))) bs"
  shows "\<exists>s. topk_add_all_batches sel (self\<lparr>is_memory_efficient := flag\<rparr>) bs = (s, None)
    \<and> all_topk_preds s = all_topk_preds self @ selected_indices sel (nat (topk self)) bs
    \<and> length (selected_indices sel (nat (topk self)) bs) = length (concat (map arg_scores bs))
    \<and> list_all (\<lambda>tk. length tk = nat (topk self)) (selected_indices sel (nat (topk self)) bs)
    \<and> all_targets s = all_targets self @ concat (map arg_targets bs)
    \<and> all_scores s
         = (if flag then all_scores self else all_scores self @ concat (map arg_scores bs))
    \<and> (all_topk_preds self = [] \<and> all_targets self = [] \<and> all_scores self = [] \<longrightarrow>
         topk_calculate_metric calculated_loss s
           = compute_topk_classification_metrics
               (map as_prediction (topk_examples (all_topk_preds s) (all_targets s)))
               (label_names self) calculated_loss True
       \<and> (\<exists>report. topk_calculate_metric calculated_loss s = Inr report
             \<and> accuracy report
                 = safe_division
                     (real (length (filter (is_hit (label_names self))
                        (topk_examples (all_topk_preds s) (all_targets s)))))
                     (real (length (all_targets s)))))"
proof -
  let ?self = "self\<lparr>is_memory_efficient := flag\<rparr>"
  let ?k = "nat (topk self)"
  let ?names = "label_names self"
  have k1: "1 \<le> ?k" using assms(1) by simp
  have pre: "0 \<le> topk ?self" "topk ?self \<le> int (length (label_names ?self))"
    "list_all (topk_batch_ok (label_names ?self)) bs"
    using assms by simp_all
  from topk_add_all_batches_appends [OF pre, of sel] obtain s where
    run: "topk_add_all_batches sel ?self bs = (s, None)"
    and tks: "all_topk_preds s = all_topk_preds self @ selected_indices sel ?k bs"
    and tgs: "all_targets s = all_targets self @ concat (map arg_targets bs)"
    and scs: "all_scores s
         = (if flag then all_scores self else all_scores self @ concat (map arg_scores bs))"
    and names: "label_names s = ?names"
    by auto
  have lens: "length (selected_indices sel ?k bs) = length (concat (map arg_scores bs))"
    "length (concat (map arg_targets bs)) = length (concat (map arg_scores bs))"
    "list_all (in_range ?names) (concat (map arg_targets bs))"
    using topk_pass_lengths [OF assms(3), of sel ?k] by simp_all
  have sel_ok: "list_all (\<lambda>tk. tk \<noteq> [] \<and> list_all (in_range ?names) tk \<and> length tk = ?k)
                  (selected_indices sel ?k bs)"
    by (rule selected_indices_in_range [OF k1 assms(3,4)])
  then have sizes: "list_all (\<lambda>tk. length tk = ?k) (selected_indices sel ?k bs)"
    and good: "list_all (\<lambda>tk. tk \<noteq> [] \<and> list_all (in_range ?names) tk)
                 (selected_indices sel ?k bs)"
    by (simp_all add: list_all_iff)
  have calc: "topk_calculate_metric calculated_loss s
           = compute_topk_classification_metrics
               (map as_prediction (topk_examples (all_topk_preds s) (all_targets s)))
               ?names calculated_loss True
       \<and> (\<exists>report. topk_calculate_metric calculated_loss s = Inr report
             \<and> accuracy report
                 = safe_division
                     (real (length (filter (is_hit ?names)
                        (topk_examples (all_topk_preds s) (all_targets s)))))
                     (real (length (all_targets s))))"
    if fresh: "all_topk_preds self = [] \<and> all_targets self = [] \<and> all_scores self = []"
  proof -
    from fresh tks tgs scs have
      b: "all_topk_preds s = selected_indices sel ?k bs"
         "all_targets s = concat (map arg_targets bs)"
         "all_scores s = (if flag then [] else concat (map arg_scores bs))"
      by simp_all
    have l1: "length (all_topk_preds s) = length (all_targets s)"
      and l2: "length (all_scores s) \<le> length (all_targets s)"
      using b lens by simp_all
    have eq: "topk_calculate_metric calculated_loss s
           = compute_topk_classification_metrics
               (map as_prediction (topk_examples (all_topk_preds s) (all_targets s)))
               ?names calculated_loss True"
      unfolding topk_calculate_metric_def names
      by (rule compute_topk_ignores_scores [OF topk_label_predictions_examples [OF l1 l2]])
    have wf: "list_all (well_formed ?names) (topk_examples (all_topk_preds s) (all_targets s))"
      unfolding b by (rule topk_examples_well_formed [OF good lens(3)])
    have n: "length (topk_examples (all_topk_preds s) (all_targets s)) = length (all_targets s)"
      using l1 by (simp add: topk_examples_def)
    from compute_topk_well_formed [OF wf, of calculated_loss True] eq n
    show ?thesis by simp
  qed
  from run tks lens(1) sizes tgs scs calc show ?thesis by blast
qed

lemma upt_4: "[0 ..< 4] = [0, 1, 2, 3 :: nat]"
  by code_simp

lemma example_selected_indices:
  "selected_indices sorted_selection 3 [example_topk_batch] = [[1, 3, 2], [0, 3, 2]]"
  by (simp add: selected_indices_def example_topk_batch_def sorted_selection_def upt_4)

theorem topk_preds_appended_whatever_the_flag_witness:
  "1 \<le> topk (example_topk_reporter 3 False)
   \<and> topk (example_topk_reporter 3 False) \<le> int (length (label_names (example_topk_reporter 3 False)))
   \<and> list_all (topk_batch_ok (label_names (example_topk_reporter 3 False))) [example_topk_batch]
   \<and> list_all (selection_ok sorted_selection (nat (topk (example_topk_reporter 3 False))))
        [example_topk_batch]
   \<and> (\<exists>s. topk_add_all_batches sorted_selection (example_topk_reporter 3 True)
             [example_topk_batch] = (s, None)
        \<and> all_topk_preds s = [[1, 3, 2], [0, 3, 2]] \<and> all_targets s = [2, 1]
        \<and> all_scores s = []
        \<and> (\<exists>report. topk_calculate_metric None s = Inr report \<and> accuracy report = 1 / 2))"
proof -
  let ?self = "example_topk_reporter 3 False"
  have vals: "topk ?self = 3" "label_names ?self = example_names" "all_topk_preds ?self = []"
    "all_scores ?self = []" "all_targets ?self = []"
    by (simp_all add: example_topk_reporter_def)
  have flag: "?self\<lparr>is_memory_efficient := True\<rparr> = example_topk_reporter 3 True"
    by (simp add: example_topk_reporter_def)
  have h1: "1 \<le> topk ?self" and h2: "topk ?self \<le> int (length (label_names ?self))"
    by (simp_all add: vals example_names_def)
  have h3: "list_all (topk_batch_ok (label_names ?self)) [example_topk_batch]"
    by (simp add: vals example_names_def topk_batch_ok_def example_topk_batch_def m_input_ok_def
          in_range_def)
  have h4: "list_all (selection_ok sorted_selection (nat (topk ?self))) [example_topk_batch]"
    by (simp add: vals selection_ok_def example_topk_batch_def sorted_selection_k_highest)
  have hits: "filter (is_hit example_names) (topk_examples [[1, 3, 2], [0, 3, 2]] [2, 1])
                = [([], [1, 3, 2], 2)]"
    by (simp add: topk_examples_def is_hit_def label_at_def example_names_def)
  from topk_preds_appended_whatever_the_flag
         [OF h1 h2 h3 h4, where flag = True and calculated_loss = None]
  obtain s where
    run: "topk_add_all_batches sorted_selection (?self\<lparr>is_memory_efficient := True\<rparr>)
            [example_topk_batch] = (s, None)"
    and b: "all_topk_preds s
              = all_topk_preds ?self @ selected_indices sorted_selection (nat (topk ?self))
                  [example_topk_batch]"
      "all_targets s = all_targets ?self @ concat (map arg_targets [example_topk_batch])"
      "all_scores s = (if True then all_scores ?self
                       else all_scores ?self @ concat (map arg_scores [example_topk_batch]))"
    and c: "all_topk_preds ?self = [] \<and> all_targets ?self = [] \<and> all_scores ?self = [] \<longrightarrow>
         (\<exists>report. topk_calculate_metric None s = Inr report
             \<and> accuracy report
                 = safe_division
                     (real (length (filter (is_hit (label_names ?self))
                        (topk_examples (all_topk_preds s) (all_targets s)))))
                     (real (length (all_targets s))))"
    by blast
  have b': "all_topk_preds s = [[1, 3, 2], [0, 3, 2]]" "all_targets s = [2, 1]"
    "all_scores s = []"
    using b by (simp_all add: vals example_selected_indices) (simp add: example_topk_batch_def)
  from c obtain report where "topk_calculate_metric None s = Inr report"
    and "accuracy report = 1 / 2"
    by (auto simp: vals b' hits safe_division_def)
  with run b' h1 h2 h3 h4 show ?thesis
    unfolding flag by blast
qed

end
